theory Spec2Isabelle
  imports Complex_Main "HOL-Library.AList" "HOL-Library.Sublist"
begin

section \<open>Values shared by both modules\<close>

text \<open>
  The exceptions the two modules raise or catch. \<open>HTTPException\<close> carries the status code
  and the detail text; the others carry the text that \<open>str(e)\<close> gives.
\<close>

datatype error =
    HTTPException nat string
  | RuntimeError string
  | AttributeError string
  | TypeError string
  | KeyError string
  | TimeoutError
  | JSONDecodeError string
  | OSError string
  | UnicodeDecodeError string

text \<open>
  Points in time (\<open>datetime.now()\<close>, \<open>time.time()\<close>) are read from the clock by the
  source; the model receives each reading as an argument. Only their order matters.
\<close>

type_synonym timestamp = int

text \<open>
  A Python \<open>dict\<close> is an association list in insertion order: \<open>map_of d k\<close> is
  \<open>d.get(k)\<close>, \<open>AList.update k v d\<close> is \<open>d[k] = v\<close> (an existing key keeps its
  place, a new one goes last) and \<open>AList.delete k d\<close> is \<open>d.pop(k, None)\<close>.
\<close>

text \<open>
  JSON values as \<open>json.loads\<close> builds them: \<open>None\<close>, \<open>bool\<close>, \<open>int\<close>, \<open>float\<close>
  (a finite double, held as the rational number it denotes), \<open>str\<close>, \<open>list\<close> and \<open>dict\<close>.
\<close>

datatype json =
    JNull
  | JBool bool
  | JInt int
  | JFloat rat
  | JStr string
  | JArr "json list"
  | JObj "(string \<times> json) list"

section \<open>server.py: the container manager\<close>

record ContainerInfo =
  info_id :: string
  tag :: string
  executor_port :: int
  resource_port :: int
  created_at :: timestamp
  last_used_at :: timestamp
  status :: string

text \<open>One entry of \<open>ContainerManager.executions\<close>, a dict with five fixed keys.\<close>

record execution =
  exec_container_id :: string
  exec_status :: string
  exec_created_at :: timestamp
  exec_completed_at :: "timestamp option"
  exec_error :: "string option"


text \<open>
  The manager's three registries. The container handle (\<open>ExecutionContainer\<close>, imported
  from the container runtime library) is the type parameter \<open>'c\<close>; a handle is an
  ordinary object and therefore truthy. The lock and the cleanup task are not part of
  the sequential model.
\<close>

record 'c ContainerManager =
  containers :: "(string \<times> 'c) list"
  container_info :: "(string \<times> ContainerInfo) list"
  executions :: "(string \<times> execution) list"

definition not_found :: "string \<Rightarrow> string \<Rightarrow> error" where
  "not_found kind ident = HTTPException 404 (kind @ '' '' @ ident @ '' not found'')"

text \<open>
  \<open>create_container\<close>: \<open>container_id\<close> is the uuid drawn, \<open>run\<close> is what constructing and
  running the container gave (the error text, or the handle with its two ports), and
  \<open>now1\<close>, \<open>now2\<close> are the two clock readings.
\<close>

definition create_container ::
  "'c ContainerManager \<Rightarrow> string \<Rightarrow> string \<Rightarrow> (string + 'c \<times> int \<times> int) \<Rightarrow> timestamp \<Rightarrow> timestamp
    \<Rightarrow> (error + string) \<times> 'c ContainerManager" where
  "create_container m cfg_tag container_id run now1 now2 =
     (case run of
        Inl msg \<Rightarrow> (Inl (HTTPException 500 (''Failed to create container: '' @ msg)), m)
      | Inr (container, eport, rport) \<Rightarrow>
          (Inr container_id,
           m\<lparr>containers := AList.update container_id container (containers m),
             container_info := AList.update container_id
               \<lparr>info_id = container_id, tag = cfg_tag, executor_port = eport,
                resource_port = rport, created_at = now1, last_used_at = now2,
                status = ''running''\<rparr> (container_info m)\<rparr>))"

definition update_container_usage ::
  "'c ContainerManager \<Rightarrow> string \<Rightarrow> timestamp \<Rightarrow> 'c ContainerManager" where
  "update_container_usage m container_id now =
     (case map_of (container_info m) container_id of
        Some info \<Rightarrow>
          m\<lparr>container_info :=
              AList.update container_id (info\<lparr>last_used_at := now\<rparr>) (container_info m)\<rparr>
      | None \<Rightarrow> m)"

definition get_container ::
  "'c ContainerManager \<Rightarrow> string \<Rightarrow> timestamp \<Rightarrow> (error + 'c) \<times> 'c ContainerManager" where
  "get_container m container_id now =
     (case map_of (containers m) container_id of
        None \<Rightarrow> (Inl (not_found ''Container'' container_id), m)
      | Some container \<Rightarrow> (Inr container, update_container_usage m container_id now))"

definition get_container_info ::
  "'c ContainerManager \<Rightarrow> string \<Rightarrow> (error + ContainerInfo) \<times> 'c ContainerManager" where
  "get_container_info m container_id =
     (case map_of (container_info m) container_id of
        None \<Rightarrow> (Inl (not_found ''Container'' container_id), m)
      | Some info \<Rightarrow> (Inr info, m))"

definition list_containers ::
  "'c ContainerManager \<Rightarrow> ContainerInfo list \<times> 'c ContainerManager" where
  "list_containers m = (map snd (container_info m), m)"

text \<open>
  \<open>destroy_container\<close>, first half: the block under the lock. It pops the handle and the
  info record, collects the ids of the executions owned by the container and pops each.
\<close>

definition destroy_locked ::
  "'c ContainerManager \<Rightarrow> string \<Rightarrow> 'c option \<times> 'c ContainerManager" where
  "destroy_locked m container_id =
     (let container = map_of (containers m) container_id;
          execution_ids = [exec_id. (exec_id, exec_info) \<leftarrow> executions m,
                             exec_container_id exec_info = container_id]
      in (container,
          m\<lparr>containers := AList.delete container_id (containers m),
            container_info := AList.delete container_id (container_info m),
            executions := fold AList.delete execution_ids (executions m)\<rparr>))"

text \<open>
  \<open>destroy_container\<close>, whole: after the locked block, a handle that was found is killed.
  \<open>kill\<close> is the runtime's answer to \<open>container.kill()\<close>, given the registry as it
  stands when the kill is issued: \<open>None\<close> when it returns, \<open>Some msg\<close> when it raises.
  The third component of the result lists the handles on which a kill was issued.
\<close>

definition destroy_container ::
  "'c ContainerManager \<Rightarrow> string \<Rightarrow> ('c ContainerManager \<Rightarrow> 'c \<Rightarrow> string option)
    \<Rightarrow> (error + bool) \<times> 'c ContainerManager \<times> 'c list" where
  "destroy_container m container_id kill =
     (case destroy_locked m container_id of
        (Some container, m1) \<Rightarrow>
          (case kill m1 container of
             None \<Rightarrow> (Inr True, m1, [container])
           | Some msg \<Rightarrow>
               (Inl (HTTPException 500 (''Failed to destroy container: '' @ msg)), m1, [container]))
      | (None, m1) \<Rightarrow> (Inr False, m1, []))"

definition register_execution ::
  "'c ContainerManager \<Rightarrow> string \<Rightarrow> string \<Rightarrow> timestamp \<Rightarrow> 'c ContainerManager" where
  "register_execution m container_id execution_id now =
     m\<lparr>executions := AList.update execution_id
         \<lparr>exec_container_id = container_id, exec_status = ''running'', exec_created_at = now,
          exec_completed_at = None, exec_error = None\<rparr> (executions m)\<rparr>"

text \<open>\<open>not error\<close> holds for \<open>None\<close> and for the empty string.\<close>

definition complete_execution ::
  "'c ContainerManager \<Rightarrow> string \<Rightarrow> string option \<Rightarrow> timestamp \<Rightarrow> 'c ContainerManager" where
  "complete_execution m execution_id err now =
     (case map_of (executions m) execution_id of
        None \<Rightarrow> m
      | Some e \<Rightarrow>
          (let truthy = (case err of None \<Rightarrow> False | Some msg \<Rightarrow> msg \<noteq> []);
               e1 = e\<lparr>exec_status := (if \<not> truthy then ''completed'' else ''error''),
                      exec_completed_at := Some now\<rparr>;
               e2 = (if truthy then e1\<lparr>exec_error := err\<rparr> else e1)
           in m\<lparr>executions := AList.update execution_id e2 (executions m)\<rparr>))"


subsection \<open>server.py: the routes the claims name\<close>

text \<open>
  The bodies of the route functions; the API-key dependency runs before each of them.
  \<open>DELETE /containers/{container_id}\<close> discards what \<open>destroy_container\<close> returns.
\<close>

definition destroy_container_route ::
  "'c ContainerManager \<Rightarrow> string \<Rightarrow> ('c ContainerManager \<Rightarrow> 'c \<Rightarrow> string option)
    \<Rightarrow> (error + json) \<times> 'c ContainerManager \<times> 'c list" where
  "destroy_container_route m container_id kill =
     (case destroy_container m container_id kill of
        (Inl e, m', ks) \<Rightarrow> (Inl e, m', ks)
      | (Inr _, m', ks) \<Rightarrow>
          (Inr (JObj [(''message'', JStr (''Container '' @ container_id @ '' destroyed''))]),
           m', ks))"

text \<open>
  \<open>GET /containers/{container_id}/mcp/{server_name}\<close>. \<open>sources\<close> is what the resource
  client's \<open>get_mcp_sources\<close> gave inside the \<open>try\<close>: the text of the exception it raised,
  or the dict from tool name to what the container holds for that tool.
\<close>

definition get_mcp_server_tools ::
  "'c ContainerManager \<Rightarrow> string \<Rightarrow> string \<Rightarrow> timestamp \<Rightarrow> (string + (string \<times> json) list)
    \<Rightarrow> (error + json) \<times> 'c ContainerManager" where
  "get_mcp_server_tools m container_id server_name now sources =
     (case get_container m container_id now of
        (Inl e, m') \<Rightarrow> (Inl e, m')
      | (Inr container, m') \<Rightarrow>
          (case sources of
             Inl msg \<Rightarrow>
               (Inl (HTTPException 500 (''Failed to get MCP server tools: '' @ msg)), m')
           | Inr srcs \<Rightarrow>
               (Inr (JObj [(''server_name'', JStr server_name),
                           (''tools'', JArr (map (\<lambda>(name, src). JStr name) srcs))]), m')))"

section \<open>Python's operators on JSON values\<close>

text \<open>
  \<open>a == b\<close>. Numbers compare by value across \<open>bool\<close>, \<open>int\<close> and \<open>float\<close>
  (\<open>True == 1\<close>, \<open>1 == 1.0\<close>); lists compare element by element; dicts compare as
  mappings, whatever the order of their keys; values of different kinds are unequal.
\<close>

fun num_of :: "json \<Rightarrow> rat option" where
  "num_of (JBool b) = Some (if b then 1 else 0)"
| "num_of (JInt i) = Some (of_int i)"
| "num_of (JFloat q) = Some q"
| "num_of _ = None"

fun py_eq :: "json \<Rightarrow> json \<Rightarrow> bool"
  and py_eq_list :: "json list \<Rightarrow> json list \<Rightarrow> bool"
  and py_eq_items :: "(string \<times> json) list \<Rightarrow> (string \<times> json) list \<Rightarrow> bool" where
  "py_eq JNull JNull = True"
| "py_eq (JStr s) (JStr t) = (s = t)"
| "py_eq (JArr xs) (JArr ys) = py_eq_list xs ys"
| "py_eq (JObj xs) (JObj ys) = (length xs = length ys \<and> py_eq_items xs ys)"
| "py_eq a b = (case (num_of a, num_of b) of (Some x, Some y) \<Rightarrow> x = y | _ \<Rightarrow> False)"
| "py_eq_list [] [] = True"
| "py_eq_list (x # xs) (y # ys) = (py_eq x y \<and> py_eq_list xs ys)"
| "py_eq_list _ _ = False"
| "py_eq_items [] ys = True"
| "py_eq_items ((k, v) # xs) ys =
     ((case map_of ys k of None \<Rightarrow> False | Some w \<Rightarrow> py_eq v w) \<and> py_eq_items xs ys)"

text \<open>The name of a value's type and a text in single quotes, as error messages print them.\<close>

fun type_name :: "json \<Rightarrow> string" where
  "type_name JNull = ''NoneType''"
| "type_name (JBool b) = ''bool''"
| "type_name (JInt i) = ''int''"
| "type_name (JFloat q) = ''float''"
| "type_name (JStr s) = ''str''"
| "type_name (JArr xs) = ''list''"
| "type_name (JObj kvs) = ''dict''"

definition quoted :: "string \<Rightarrow> string" where
  "quoted s = CHR 0x27 # s @ [CHR 0x27]"

text \<open>\<open>obj.get(key)\<close>: only a dict has the method.\<close>

definition py_get :: "json \<Rightarrow> string \<Rightarrow> error + json" where
  "py_get obj key =
     (case obj of
        JObj kvs \<Rightarrow> (case map_of kvs key of None \<Rightarrow> Inr JNull | Some v \<Rightarrow> Inr v)
      | _ \<Rightarrow> Inl (AttributeError
                 (quoted (type_name obj) @ '' object has no attribute '' @ quoted ''get'')))"

text \<open>
  \<open>key in obj\<close> for a string \<open>key\<close>: a key of a dict, an element of a list, a substring
  of a string; the other kinds are not iterable.
\<close>

definition py_contains :: "string \<Rightarrow> json \<Rightarrow> error + bool" where
  "py_contains key obj =
     (case obj of
        JObj kvs \<Rightarrow> Inr (map_of kvs key \<noteq> None)
      | JArr xs \<Rightarrow> Inr (list_ex (\<lambda>x. py_eq x (JStr key)) xs)
      | JStr s \<Rightarrow> Inr (sublist key s)
      | _ \<Rightarrow> Inl (TypeError
                 (''argument of type '' @ quoted (type_name obj) @ '' is not iterable'')))"

text \<open>
  \<open>obj[key]\<close> for a string \<open>key\<close>: only a dict can be indexed by a string. (The text
  for a string index into a string is the one of Python up to 3.10; later versions
  append the type of the index.)
\<close>

definition py_getitem :: "json \<Rightarrow> string \<Rightarrow> error + json" where
  "py_getitem obj key =
     (case obj of
        JObj kvs \<Rightarrow> (case map_of kvs key of None \<Rightarrow> Inl (KeyError key) | Some v \<Rightarrow> Inr v)
      | JArr xs \<Rightarrow> Inl (TypeError ''list indices must be integers or slices, not str'')
      | JStr s \<Rightarrow> Inl (TypeError ''string indices must be integers'')
      | _ \<Rightarrow> Inl (TypeError (quoted (type_name obj) @ '' object is not subscriptable'')))"

fun string_of_nat :: "nat \<Rightarrow> string" where
  "string_of_nat n =
     (if n < 10 then [char_of (48 + n)]
      else string_of_nat (n div 10) @ [char_of (48 + n mod 10)])"

text \<open>
  \<open>str(e)\<close>; an \<open>HTTPException\<close> prints as its status code and its detail, a
  \<open>KeyError\<close> as the key in quotes.
\<close>

fun str_exc :: "error \<Rightarrow> string" where
  "str_exc (HTTPException code detail) = string_of_nat code @ '': '' @ detail"
| "str_exc (RuntimeError msg) = msg"
| "str_exc (AttributeError msg) = msg"
| "str_exc (TypeError msg) = msg"
| "str_exc (KeyError key) = quoted key"
| "str_exc TimeoutError = []"
| "str_exc (JSONDecodeError msg) = msg"
| "str_exc (OSError msg) = msg"
| "str_exc (UnicodeDecodeError msg) = msg"

section \<open>mcp_proxy.py: the session\<close>

datatype MCPSessionState = INITIALIZING | ACTIVE | CLOSING | CLOSED | ERROR

text \<open>
  A state as an f-string prints it. The enum mixes in \<open>str\<close>: from Python 3.11 on such
  a member is formatted as the class and member name (before, as its value).
\<close>

fun state_text :: "MCPSessionState \<Rightarrow> string" where
  "state_text INITIALIZING = ''MCPSessionState.INITIALIZING''"
| "state_text ACTIVE = ''MCPSessionState.ACTIVE''"
| "state_text CLOSING = ''MCPSessionState.CLOSING''"
| "state_text CLOSED = ''MCPSessionState.CLOSED''"
| "state_text ERROR = ''MCPSessionState.ERROR''"

text \<open>The child process: its pid, and its return code once it has exited.\<close>

record subprocess =
  pid :: nat
  returncode :: "int option"

text \<open>One of the three background tasks of a session.\<close>

datatype task = TaskRunning | TaskDone | TaskCancelled

text \<open>
  The fields of \<open>MCPSession\<close>. \<open>stdin_queue\<close> holds the messages put for the writer task,
  each standing for its \<open>json.dumps\<close> line. What the reader task puts on the stdout queue
  arrives from outside and is given to \<open>receive_message\<close> as an argument.
\<close>

record MCPSession =
  session_id :: string
  container_id :: string
  server_name :: string
  command :: string
  args :: "string list"
  working_dir :: "string option"
  env :: "(string \<times> string) list"
  timeout :: int
  state :: MCPSessionState
  process :: "subprocess option"
  last_activity :: timestamp
  initialized :: bool
  stdin_queue :: "json list"
  tasks :: "task list"

definition MCPSession_init ::
  "string \<Rightarrow> string \<Rightarrow> string \<Rightarrow> string \<Rightarrow> string list \<Rightarrow> string option
    \<Rightarrow> (string \<times> string) list option \<Rightarrow> int \<Rightarrow> timestamp \<Rightarrow> MCPSession" where
  "MCPSession_init sid cid sname cmd as wd ev tmo now =
     \<lparr>session_id = sid, container_id = cid, server_name = sname, command = cmd, args = as,
      working_dir = wd, env = (case ev of None \<Rightarrow> [] | Some e \<Rightarrow> e), timeout = tmo,
      state = INITIALIZING, process = None, last_activity = now, initialized = False,
      stdin_queue = [], tasks = []\<rparr>"

text \<open>What \<open>create_subprocess_exec\<close> gives: a child with a pid, or an exception.\<close>

datatype spawn = Spawned nat | SpawnFails string

definition start :: "MCPSession \<Rightarrow> spawn \<Rightarrow> timestamp \<Rightarrow> bool \<times> MCPSession" where
  "start s sp now =
     (case sp of
        Spawned p \<Rightarrow>
          (True, s\<lparr>process := Some \<lparr>pid = p, returncode = None\<rparr>,
                   tasks := [TaskRunning, TaskRunning, TaskRunning],
                   state := ACTIVE, last_activity := now\<rparr>)
      | SpawnFails msg \<Rightarrow> (False, s\<lparr>state := ERROR\<rparr>))"

text \<open>
  What terminating the child gives in \<open>stop\<close>: it exits within the two seconds; it has to
  be killed after them; \<open>terminate\<close> or the wait raises something other than a timeout,
  which is logged; or the kill in the timeout handler raises, which leaves \<open>stop\<close>.
\<close>

datatype stop_outcome =
    Exits int
  | KilledAfterTimeout int
  | TerminateRaises string
  | KillRaises string

fun cancel :: "task \<Rightarrow> task" where
  "cancel TaskRunning = TaskCancelled"
| "cancel t = t"

text \<open>The first statements of \<open>stop\<close>, up to the cancelling of the tasks.\<close>

definition stop_begin :: "MCPSession \<Rightarrow> MCPSession" where
  "stop_begin s = s\<lparr>state := CLOSING, tasks := map cancel (tasks s)\<rparr>"

definition stop :: "MCPSession \<Rightarrow> stop_outcome \<Rightarrow> (error + unit) \<times> MCPSession" where
  "stop s outcome =
     (if state s = CLOSED \<or> state s = CLOSING then (Inr (), s)
      else
        (let s1 = stop_begin s in
         case process s1 of
           None \<Rightarrow> (Inr (), s1\<lparr>state := CLOSED\<rparr>)
         | Some p \<Rightarrow>
             (if returncode p \<noteq> None then (Inr (), s1\<lparr>state := CLOSED\<rparr>)
              else
                (case outcome of
                   Exits rc \<Rightarrow>
                     (Inr (), s1\<lparr>process := Some (p\<lparr>returncode := Some rc\<rparr>), state := CLOSED\<rparr>)
                 | KilledAfterTimeout rc \<Rightarrow>
                     (Inr (), s1\<lparr>process := Some (p\<lparr>returncode := Some rc\<rparr>), state := CLOSED\<rparr>)
                 | TerminateRaises msg \<Rightarrow> (Inr (), s1\<lparr>state := CLOSED\<rparr>)
                 | KillRaises msg \<Rightarrow> (Inl (OSError msg), s1)))))"

definition not_active :: "string \<Rightarrow> MCPSessionState \<Rightarrow> error" where
  "not_active what st = RuntimeError (''Cannot '' @ what @ '' MCP server in state '' @ state_text st)"

definition send_message :: "MCPSession \<Rightarrow> json \<Rightarrow> timestamp \<Rightarrow> (error + unit) \<times> MCPSession" where
  "send_message s message now =
     (if state s \<noteq> ACTIVE then (Inl (not_active ''send message to'' (state s)), s)
      else (Inr (), s\<lparr>last_activity := now, stdin_queue := stdin_queue s @ [message]\<rparr>))"

text \<open>
  A line taken from the stdout queue, held with what \<open>json.loads\<close> makes of it: the value
  it denotes, or the text of the decode error.
\<close>

datatype line = Line json | Malformed string

text \<open>
  What the wait on the stdout queue gives within the timeout of \<open>receive_message\<close>
  (the proxy always passes 30 seconds): a line, or nothing in time.
\<close>

datatype arrival = Got line | Expired

definition receive_message ::
  "MCPSession \<Rightarrow> arrival \<Rightarrow> timestamp \<Rightarrow> (error + json) \<times> MCPSession" where
  "receive_message s arr now =
     (if state s \<noteq> ACTIVE then (Inl (not_active ''receive message from'' (state s)), s)
      else
        (case arr of
           Expired \<Rightarrow> (Inl TimeoutError, s)
         | Got (Line message) \<Rightarrow> (Inr message, s\<lparr>last_activity := now\<rparr>)
         | Got (Malformed msg) \<Rightarrow> (Inl (JSONDecodeError msg), s\<lparr>last_activity := now\<rparr>)))"

definition is_idle_timeout :: "MCPSession \<Rightarrow> int \<Rightarrow> timestamp \<Rightarrow> bool" where
  "is_idle_timeout s max_idle_time now = (now - last_activity s > max_idle_time)"

subsection \<open>The public operations as a state machine\<close>

text \<open>
  One call of a public operation of a session, with what the outside gives to it.
\<close>

datatype op =
    Start spawn timestamp
  | SendMessage json timestamp
  | ReceiveMessage arrival timestamp
  | Stop stop_outcome

fun apply_op :: "MCPSession \<Rightarrow> op \<Rightarrow> MCPSession" where
  "apply_op s (Start sp now) = snd (start s sp now)"
| "apply_op s (SendMessage message now) = snd (send_message s message now)"
| "apply_op s (ReceiveMessage arr now) = snd (receive_message s arr now)"
| "apply_op s (Stop outcome) = snd (stop s outcome)"

text \<open>
  The values that one call assigns to \<open>self.state\<close>, in order. \<open>stop\<close> assigns
  \<open>CLOSING\<close> and then, unless it returns at once or is left by an exception, \<open>CLOSED\<close>;
  \<open>start\<close> assigns once; the other two never assign.
\<close>

fun assigned :: "MCPSession \<Rightarrow> op \<Rightarrow> MCPSessionState list" where
  "assigned s (Start sp now) = [state (snd (start s sp now))]"
| "assigned s (Stop outcome) =
     (if state s = CLOSED \<or> state s = CLOSING then []
      else [state (stop_begin s), state (snd (stop s outcome))])"
| "assigned s _ = []"

fun run :: "MCPSession \<Rightarrow> op list \<Rightarrow> MCPSession" where
  "run s [] = s"
| "run s (x # xs) = run (apply_op s x) xs"

fun assignments :: "MCPSession \<Rightarrow> op list \<Rightarrow> MCPSessionState list" where
  "assignments s [] = []"
| "assignments s (x # xs) = assigned s x @ assignments (apply_op s x) xs"

text \<open>The states a session goes through over a sequence of calls, the first one included.\<close>

definition visited :: "MCPSession \<Rightarrow> op list \<Rightarrow> MCPSessionState list" where
  "visited s xs = state s # assignments s xs"

text \<open>
  The order of the declared machine: \<open>initializing\<close>, \<open>active\<close>, \<open>closing\<close>, \<open>closed\<close>, with
  \<open>error\<close> placed after the two states it may be entered from and before the two that
  \<open>stop\<close> leads to.
\<close>

fun rank :: "MCPSessionState \<Rightarrow> nat" where
  "rank INITIALIZING = 0"
| "rank ACTIVE = 1"
| "rank ERROR = 2"
| "rank CLOSING = 3"
| "rank CLOSED = 4"

definition monotonic :: "MCPSessionState list \<Rightarrow> bool" where
  "monotonic tr = sorted (map rank tr)"

text \<open>
  Every \<open>start\<close> of the sequence is called on a session that is in \<open>initializing\<close> or
  in \<open>active\<close>, that is, on one that has neither failed to start nor been stopped.
\<close>

fun starts_live :: "MCPSession \<Rightarrow> op list \<Rightarrow> bool" where
  "starts_live s [] = True"
| "starts_live s (Start sp now # xs) =
     ((state s = INITIALIZING \<or> state s = ACTIVE) \<and> starts_live (apply_op s (Start sp now)) xs)"
| "starts_live s (x # xs) = starts_live (apply_op s x) xs"

fun is_start :: "op \<Rightarrow> bool" where
  "is_start (Start sp now) = True"
| "is_start _ = False"

section \<open>mcp_proxy.py: the proxy\<close>

text \<open>
  Session objects are shared: the registry, the request being handled and the session's
  own tasks hold the same object. The objects live in a store, a reference is an index
  into it, and the registry \<open>sessions\<close> maps a session id to a reference. A reference
  held by the registry points into the store.
\<close>

type_synonym ref = nat

type_synonym store = "MCPSession list"

record MCPProxy =
  session_timeout :: int
  cleanup_interval :: int
  sessions :: "(string \<times> ref) list"

text \<open>
  The registry as the proxy keeps it: a dict (no id twice), no session object under
  two ids, every reference inside the store. It holds of the empty registry and every
  \<open>get_or_create_session\<close> keeps it.
\<close>

definition registry_ok :: "store \<Rightarrow> MCPProxy \<Rightarrow> bool" where
  "registry_ok st p =
     (distinct (map fst (sessions p)) \<and> distinct (map snd (sessions p))
      \<and> list_all (\<lambda>r. r < length st) (map snd (sessions p)))"

text \<open>
  \<open>get_or_create_session\<close>. \<open>uuid\<close> is the text of the uuid drawn, \<open>sp\<close> what spawning the
  child gives, \<open>now\<close> the clock reading of the touch or of the constructor and \<open>now2\<close>
  the one of \<open>start\<close>. An absent or empty \<open>session_id\<close> is falsy. \<open>find_session\<close> is
  the test of the first \<open>if\<close> with the one nested in it.
\<close>

definition find_session ::
  "store \<Rightarrow> MCPProxy \<Rightarrow> string \<Rightarrow> string \<Rightarrow> string option \<Rightarrow> (string \<times> ref) option" where
  "find_session st p cid sname sid_opt =
     (case sid_opt of
        None \<Rightarrow> None
      | Some sid \<Rightarrow>
          (if sid = [] then None
           else
             (case map_of (sessions p) sid of
                None \<Rightarrow> None
              | Some r \<Rightarrow>
                  (if container_id (st ! r) = cid \<and> server_name (st ! r) = sname
                   then Some (sid, r) else None))))"

definition get_or_create_session ::
  "store \<Rightarrow> MCPProxy \<Rightarrow> string \<Rightarrow> string \<Rightarrow> string option \<Rightarrow> string option \<Rightarrow> string list option
    \<Rightarrow> string option \<Rightarrow> (string \<times> string) list option \<Rightarrow> string \<Rightarrow> spawn \<Rightarrow> timestamp \<Rightarrow> timestamp
    \<Rightarrow> (error + string \<times> ref) \<times> store \<times> MCPProxy" where
  "get_or_create_session st p cid sname sid_opt cmd as wd ev uuid sp now now2 =
     (case find_session st p cid sname sid_opt of
        Some (sid, r) \<Rightarrow> (Inr (sid, r), st[r := (st ! r)\<lparr>last_activity := now\<rparr>], p)
      | None \<Rightarrow>
          (let new_session_id = (case sid_opt of
                                   None \<Rightarrow> ''mcp-'' @ uuid
                                 | Some sid \<Rightarrow> if sid = [] then ''mcp-'' @ uuid else sid);
               cmd1 = (case cmd of None \<Rightarrow> ''uvx'' | Some c \<Rightarrow> c);
               as1 = (case as of
                        None \<Rightarrow> [''supergateway'', ''--stdio'', ''mcp-server-'' @ sname]
                      | Some a \<Rightarrow> a);
               session = MCPSession_init new_session_id cid sname cmd1 as1 wd ev
                           (session_timeout p) now;
               r = length st;
               (success, session1) = start session sp now2;
               st1 = st @ [session1]
           in if \<not> success
              then (Inl (HTTPException 500 (''Failed to start MCP session for server '' @ sname)),
                    st1, p)
              else (Inr (new_session_id, r), st1,
                    p\<lparr>sessions := AList.update new_session_id r (sessions p)\<rparr>)))"

text \<open>The two synthetic frames of \<open>handle_mcp_request\<close>.\<close>

definition error_frame :: "string \<Rightarrow> json \<Rightarrow> json" where
  "error_frame message ident =
     JObj [(''jsonrpc'', JStr ''2.0''),
           (''error'', JObj [(''code'', JInt (- 32603)), (''message'', JStr message)]),
           (''id'', ident)]"

definition timeout_frame :: "json \<Rightarrow> json" where
  "timeout_frame ident = error_frame ''Timeout waiting for response from MCP server'' ident"

definition internal_error_frame :: "error \<Rightarrow> json \<Rightarrow> json" where
  "internal_error_frame e ident = error_frame (''Internal error: '' @ str_exc e) ident"

text \<open>\<open>"id" in response and response["id"] == request_id\<close>.\<close>

definition matches_request :: "json \<Rightarrow> json \<Rightarrow> error + bool" where
  "matches_request response request_id =
     (case py_contains ''id'' response of
        Inl e \<Rightarrow> Inl e
      | Inr False \<Rightarrow> Inr False
      | Inr True \<Rightarrow>
          (case py_getitem response ''id'' of
             Inl e \<Rightarrow> Inl e
           | Inr v \<Rightarrow> Inr (py_eq v request_id)))"

text \<open>
  The frame carries the id of the request: \<open>frame["id"]\<close> is the request id itself, or
  a value that \<open>==\<close> takes for equal to it.
\<close>

definition has_id :: "json \<Rightarrow> json \<Rightarrow> bool" where
  "has_id frame request_id =
     (case py_getitem frame ''id'' of
        Inl e \<Rightarrow> False
      | Inr v \<Rightarrow> v = request_id \<or> py_eq v request_id)"

text \<open>
  What happens next while the request waits in its loop: the next \<open>receive_message\<close> gets
  a line or times out, each with the clock reading of that call; or another task (the
  reaper, the shutdown) runs \<open>stop\<close> on the session before the next call.
\<close>

datatype event = Receive arrival timestamp | Stopped stop_outcome

text \<open>
  How a run of generator code ends: it finishes, an exception leaves it, or it is still
  waiting for a frame when the events given to the model are used up.
\<close>

datatype ending = Returned | Raised error | Waiting

text \<open>
  The \<open>while True\<close> loop. The result is the frames yielded, the way the loop was left
  and the store.
\<close>

fun receive_loop ::
  "store \<Rightarrow> ref \<Rightarrow> json \<Rightarrow> event list \<Rightarrow> json list \<times> ending \<times> store" where
  "receive_loop st r request_id [] = ([], Waiting, st)"
| "receive_loop st r request_id (Stopped outcome # evs) =
     receive_loop (st[r := snd (stop (st ! r) outcome)]) r request_id evs"
| "receive_loop st r request_id (Receive arr now # evs) =
     (case receive_message (st ! r) arr now of
        (Inl TimeoutError, s1) \<Rightarrow> ([timeout_frame request_id], Returned, st[r := s1])
      | (Inl e, s1) \<Rightarrow> ([], Raised e, st[r := s1])
      | (Inr response, s1) \<Rightarrow>
          (case matches_request response request_id of
             Inl e \<Rightarrow> ([response], Raised e, st[r := s1])
           | Inr True \<Rightarrow> ([response], Returned, st[r := s1])
           | Inr False \<Rightarrow>
               (case receive_loop (st[r := s1]) r request_id evs of
                  (frames, res, st2) \<Rightarrow> (response # frames, res, st2))))"

text \<open>
  An event that keeps the loop going: a line that decodes to a frame which does not
  match the request id. \<open>frame_of\<close> is the frame such an event makes the loop yield.
\<close>

fun passes_by :: "json \<Rightarrow> event \<Rightarrow> bool" where
  "passes_by request_id (Receive (Got (Line response)) now) =
     (matches_request response request_id = Inr False)"
| "passes_by request_id _ = False"

fun frame_of :: "event \<Rightarrow> json" where
  "frame_of (Receive (Got (Line response)) now) = response"
| "frame_of _ = JNull"

text \<open>
  The second \<open>try\<close> block of \<open>handle_mcp_request\<close>, from \<open>send_message\<close> to the end of
  the loop, on the session at reference \<open>r\<close>.
\<close>

definition handle_body ::
  "store \<Rightarrow> ref \<Rightarrow> json \<Rightarrow> timestamp \<Rightarrow> event list \<Rightarrow> json list \<times> ending \<times> store" where
  "handle_body st r request_data now evs =
     (case send_message (st ! r) request_data now of
        (Inl e, s1) \<Rightarrow> ([], Raised e, st)
      | (Inr u, s1) \<Rightarrow>
          (case py_get request_data ''method'' of
             Inl e \<Rightarrow> ([], Raised e, st[r := s1])
           | Inr method \<Rightarrow>
               (let s2 = (if py_eq method (JStr ''initialize'')
                          then s1\<lparr>initialized := True\<rparr> else s1);
                    st2 = st[r := s2]
                in case py_get request_data ''id'' of
                     Inl e \<Rightarrow> ([], Raised e, st2)
                   | Inr request_id \<Rightarrow>
                       (if request_id = JNull then ([], Returned, st2)
                        else receive_loop st2 r request_id evs))))"

text \<open>
  The handler \<open>except Exception as e\<close> of either \<open>try\<close> block, entered after \<open>frames\<close>
  have been yielded: it yields the internal-error frame, unless reading the id raises
  in its turn, which leaves the generator.
\<close>

definition on_exception :: "json \<Rightarrow> json list \<Rightarrow> error \<Rightarrow> json list \<times> ending" where
  "on_exception request_data frames e =
     (case py_get request_data ''id'' of
        Inl e2 \<Rightarrow> (frames, Raised e2)
      | Inr ident \<Rightarrow> (frames @ [internal_error_frame e ident], Returned))"

text \<open>
  \<open>handle_mcp_request\<close>: the frames the generator yields, how it ends, and the store and
  the proxy afterwards. \<open>send_now\<close> is the clock reading of \<open>send_message\<close>.
\<close>

definition handle_mcp_request ::
  "store \<Rightarrow> MCPProxy \<Rightarrow> string \<Rightarrow> string \<Rightarrow> json \<Rightarrow> string option \<Rightarrow> string option
    \<Rightarrow> string list option \<Rightarrow> string \<Rightarrow> spawn \<Rightarrow> timestamp \<Rightarrow> timestamp \<Rightarrow> timestamp \<Rightarrow> event list
    \<Rightarrow> json list \<times> ending \<times> store \<times> MCPProxy" where
  "handle_mcp_request st p cid sname request_data sid_opt cmd as uuid sp now now2 send_now evs =
     (case get_or_create_session st p cid sname sid_opt cmd as None None uuid sp now now2 of
        (Inl e, st1, p1) \<Rightarrow>
          (case on_exception request_data [] e of (frames, res) \<Rightarrow> (frames, res, st1, p1))
      | (Inr (sid, r), st1, p1) \<Rightarrow>
          (case handle_body st1 r request_data send_now evs of
             (frames, Raised e, st2) \<Rightarrow>
               (case on_exception request_data frames e of
                  (frames2, res) \<Rightarrow> (frames2, res, st2, p1))
           | (frames, res, st2) \<Rightarrow> (frames, res, st2, p1)))"

text \<open>
  One pass of the reaper \<open>_cleanup_idle_sessions\<close> after its sleep: the ids of the idle
  sessions are collected, then each is popped from the registry and stopped. \<open>outcome\<close>
  gives, for a reference, what terminating its child gives. An exception out of
  \<open>stop\<close> ends the pass (and the reaper), and is returned.
\<close>

fun stop_idle ::
  "store \<Rightarrow> MCPProxy \<Rightarrow> string list \<Rightarrow> (ref \<Rightarrow> stop_outcome) \<Rightarrow> error option \<times> store \<times> MCPProxy" where
  "stop_idle st p [] outcome = (None, st, p)"
| "stop_idle st p (sid # sids) outcome =
     (case map_of (sessions p) sid of
        None \<Rightarrow> stop_idle st p sids outcome
      | Some r \<Rightarrow>
          (let p1 = p\<lparr>sessions := AList.delete sid (sessions p)\<rparr> in
           case stop (st ! r) (outcome r) of
             (Inl e, s1) \<Rightarrow> (Some e, st[r := s1], p1)
           | (Inr u, s1) \<Rightarrow> stop_idle (st[r := s1]) p1 sids outcome))"

definition cleanup_pass ::
  "store \<Rightarrow> MCPProxy \<Rightarrow> timestamp \<Rightarrow> (ref \<Rightarrow> stop_outcome) \<Rightarrow> error option \<times> store \<times> MCPProxy" where
  "cleanup_pass st p now outcome =
     stop_idle st p
       [sid. (sid, r) \<leftarrow> sessions p, is_idle_timeout (st ! r) (session_timeout p) now]
       outcome"

subsection \<open>The route POST /containers/{container_id}/mcp-proxy/{server_name}\<close>

text \<open>
  A container handle is truthy, so the test \<open>if not container\<close> of the route never
  raises once \<open>get_container\<close> has returned.

  The request model \<open>JSONRPC20Request\<close>, applied to one item as \<open>JSONRPC20Request(**item)\<close>:
  the item has to be a dict, \<open>method\<close> is required and a string, \<open>jsonrpc\<close> is a string,
  \<open>params\<close> is a dict, a list or null, \<open>id\<close> is a string, an integer or null, where
  the lax validation also takes a bool and a float without fractional part for an
  integer; other keys are ignored. The result is the text of the validation error, if
  any; the texts stand for the longer ones that pydantic prints.
\<close>

definition field_ok :: "(string \<times> json) list \<Rightarrow> string \<Rightarrow> (json \<Rightarrow> bool) \<Rightarrow> bool" where
  "field_ok kvs key allowed = (case map_of kvs key of None \<Rightarrow> True | Some v \<Rightarrow> allowed v)"

definition JSONRPC20Request :: "json \<Rightarrow> string option" where
  "JSONRPC20Request item =
     (case item of
        JObj kvs \<Rightarrow>
          (if map_of kvs ''method'' = None then Some ''method: field required''
           else if \<not> field_ok kvs ''method'' (\<lambda>v. case v of JStr _ \<Rightarrow> True | _ \<Rightarrow> False)
             then Some ''method: not a string''
           else if \<not> field_ok kvs ''jsonrpc'' (\<lambda>v. case v of JStr _ \<Rightarrow> True | _ \<Rightarrow> False)
             then Some ''jsonrpc: not a string''
           else if \<not> field_ok kvs ''params''
                     (\<lambda>v. case v of JNull \<Rightarrow> True | JObj _ \<Rightarrow> True | JArr _ \<Rightarrow> True | _ \<Rightarrow> False)
             then Some ''params: not a dict or a list''
           else if \<not> field_ok kvs ''id''
                     (\<lambda>v. case v of JNull \<Rightarrow> True | JStr _ \<Rightarrow> True | JInt _ \<Rightarrow> True
                             | JBool _ \<Rightarrow> True | JFloat q \<Rightarrow> of_int \<lfloor>q\<rfloor> = q | _ \<Rightarrow> False)
             then Some ''id: not a string or an integer''
           else None)
      | _ \<Rightarrow> Some ''argument after ** must be a mapping'')"

text \<open>The validation of the body: every item of a list in turn, or the single value.\<close>

fun validate_items :: "json list \<Rightarrow> string option" where
  "validate_items [] = None"
| "validate_items (item # items) =
     (case JSONRPC20Request item of Some msg \<Rightarrow> Some msg | None \<Rightarrow> validate_items items)"

definition validate_body :: "json \<Rightarrow> string option" where
  "validate_body request_data =
     (case request_data of
        JArr items \<Rightarrow> validate_items items
      | _ \<Rightarrow> JSONRPC20Request request_data)"

text \<open>
  What the route gives: a JSON response (status, content, headers), a streaming response
  (the events of the stream, each frame standing for its \<open>data:\<close> line, with the way the
  stream ends), an exception raised out of the route function, or nothing yet because
  the generator is still waiting.
\<close>

datatype response =
    JSONResponse nat json "(string \<times> string) list"
  | StreamingResponse "json list" ending "(string \<times> string) list"
  | Unhandled error
  | Pending

text \<open>
  The body of the request as \<open>request.json()\<close> takes it: bytes that are not text in a
  Unicode encoding (the \<open>UnicodeDecodeError\<close> is not a \<open>JSONDecodeError\<close> and leaves the
  route), text that is not JSON, or a value.
\<close>

datatype body = NotUnicode string | NotJSON | Body json

definition rpc_error :: "int \<Rightarrow> string \<Rightarrow> json \<Rightarrow> json" where
  "rpc_error code message ident =
     JObj [(''jsonrpc'', JStr ''2.0''),
           (''error'', JObj [(''code'', JInt code), (''message'', JStr message)]),
           (''id'', ident)]"

definition mcp_proxy_endpoint ::
  "'c ContainerManager \<Rightarrow> store \<Rightarrow> MCPProxy \<Rightarrow> string \<Rightarrow> string \<Rightarrow> body \<Rightarrow> string option
    \<Rightarrow> string option \<Rightarrow> timestamp \<Rightarrow> string \<Rightarrow> spawn \<Rightarrow> timestamp \<Rightarrow> timestamp \<Rightarrow> timestamp
    \<Rightarrow> event list \<Rightarrow> response \<times> 'c ContainerManager \<times> store \<times> MCPProxy" where
  "mcp_proxy_endpoint m st p cid sname bdy accept mcp_session_id used_now uuid sp now now2
       send_now evs =
     (case get_container m cid used_now of
        (Inl e, m1) \<Rightarrow> (Unhandled e, m1, st, p)
      | (Inr container, m1) \<Rightarrow>
          (case bdy of
             NotUnicode msg \<Rightarrow> (Unhandled (UnicodeDecodeError msg), m1, st, p)
           | NotJSON \<Rightarrow>
               (JSONResponse 400 (rpc_error (- 32700) ''Parse error: Invalid JSON'' JNull) [],
                m1, st, p)
           | Body request_data \<Rightarrow>
               (case validate_body request_data of
                  Some msg \<Rightarrow>
                    (JSONResponse 400
                       (rpc_error (- 32600) (''Invalid Request: '' @ msg)
                          (case request_data of
                             JObj kvs \<Rightarrow> (case map_of kvs ''id'' of None \<Rightarrow> JNull | Some v \<Rightarrow> v)
                           | _ \<Rightarrow> JNull)) [],
                     m1, st, p)
                | None \<Rightarrow>
                    (let accept_header = (case accept of None \<Rightarrow> ''application/json'' | Some a \<Rightarrow> a);
                         use_sse = sublist ''text/event-stream'' accept_header;
                         headers = (case mcp_session_id of
                                      None \<Rightarrow> []
                                    | Some sid \<Rightarrow>
                                        if sid = [] then [] else [(''Mcp-Session-Id'', sid)])
                     in case handle_mcp_request st p cid sname request_data mcp_session_id
                               None None uuid sp now now2 send_now evs of
                          (frames, res, st1, p1) \<Rightarrow>
                            (if use_sse then (StreamingResponse frames res headers, m1, st1, p1)
                             else
                               (case res of
                                  Raised e \<Rightarrow> (Unhandled e, m1, st1, p1)
                                | Waiting \<Rightarrow> (Pending, m1, st1, p1)
                                | Returned \<Rightarrow>
                                    (case request_data of
                                       JArr items \<Rightarrow>
                                         (JSONResponse 200 (JArr frames) headers, m1, st1, p1)
                                     | _ \<Rightarrow>
                                         (JSONResponse 200
                                            (case frames of [] \<Rightarrow> JNull | f # fs \<Rightarrow> f) headers,
                                          m1, st1, p1))))))))"

section \<open>Concrete inputs\<close>

text \<open>
  A manager with one container \<open>c1\<close> (handle \<open>7\<close>), an execution of it and one of another
  container; a runtime whose kill always raises and one whose kill always returns.
\<close>

definition example_info :: ContainerInfo where
  "example_info =
     \<lparr>info_id = ''c1'', tag = ''ghcr.io/gradion-ai/ipybox'', executor_port = 8888,
      resource_port = 8900, created_at = 100, last_used_at = 100, status = ''running''\<rparr>"

definition example_manager :: "nat ContainerManager" where
  "example_manager =
     \<lparr>containers = [(''c1'', 7)],
      container_info = [(''c1'', example_info)],
      executions =
        [(''e1'', \<lparr>exec_container_id = ''c1'', exec_status = ''completed'', exec_created_at = 110,
                   exec_completed_at = Some 120, exec_error = None\<rparr>),
         (''e2'', \<lparr>exec_container_id = ''c2'', exec_status = ''running'', exec_created_at = 115,
                   exec_completed_at = None, exec_error = None\<rparr>)]\<rparr>"

definition kill_fails :: "nat ContainerManager \<Rightarrow> nat \<Rightarrow> string option" where
  "kill_fails m c = Some ''no such container''"

definition kill_ok :: "nat ContainerManager \<Rightarrow> nat \<Rightarrow> string option" where
  "kill_ok m c = None"

text \<open>A tool descriptor as the schema tests read it, and the sources of one tool.\<close>

definition echo_descriptor :: json where
  "echo_descriptor =
     JObj [(''name'', JStr ''echo''),
           (''description'', JStr ''Echo a message''),
           (''inputSchema'',
            JObj [(''properties'',
                   JObj [(''message'', JObj [(''type'', JStr ''string''),
                                            (''description'', JStr ''The message'')])]),
                  (''required'', JArr [JStr ''message''])])]"

definition example_sources :: "(string \<times> json) list" where
  "example_sources = [(''echo'', echo_descriptor)]"

text \<open>A proxy without sessions, and a JSON-RPC request with a given method and id.\<close>

definition example_proxy :: MCPProxy where
  "example_proxy = \<lparr>session_timeout = 3600, cleanup_interval = 300, sessions = []\<rparr>"

definition example_request :: "string \<Rightarrow> json \<Rightarrow> json" where
  "example_request method ident =
     JObj [(''jsonrpc'', JStr ''2.0''), (''method'', JStr method), (''id'', ident)]"

definition example_session :: MCPSession where
  "example_session =
     MCPSession_init ''mcp-1'' ''c1'' ''echo'' ''uvx''
       [''supergateway'', ''--stdio'', ''mcp-server-echo''] None None 3600 0"

text \<open>
  The example session once started, alone in the store and registered under its id; and
  the two frames a server answers to a request with id \<open>1\<close>: a notification first,
  then the result.
\<close>

definition example_active :: MCPSession where
  "example_active = snd (start example_session (Spawned 41) 1)"

definition example_store :: store where
  "example_store = [example_active]"

definition example_registry :: MCPProxy where
  "example_registry = example_proxy\<lparr>sessions := [(''mcp-1'', 0)]\<rparr>"

definition example_touched :: store where
  "example_touched = example_store[0 := (example_store ! 0)\<lparr>last_activity := 10\<rparr>]"

definition example_notification :: json where
  "example_notification =
     JObj [(''jsonrpc'', JStr ''2.0''), (''method'', JStr ''notifications/progress'')]"

definition example_result :: "json \<Rightarrow> json" where
  "example_result ident =
     JObj [(''jsonrpc'', JStr ''2.0''), (''id'', ident), (''result'', JStr ''ping'')]"

text \<open>
  A \<open>tools/call\<close> request with a given id, handled on the registered example session
  with given events.
\<close>

definition example_call :: "json \<Rightarrow> event list \<Rightarrow> json list \<times> ending \<times> store \<times> MCPProxy" where
  "example_call ident evs =
     handle_mcp_request example_store example_registry ''c1'' ''echo''
       (example_request ''tools/call'' ident) (Some ''mcp-1'') None None ''0b4e7a1c''
       (Spawned 42) 10 11 12 evs"

section \<open>The container manager: removal and lookup\<close>

lemma fold_delete_filter:
  "fold AList.delete ks d = filter (\<lambda>(k, v). k \<notin> set ks) d"
proof (induction ks arbitrary: d)
  case Nil
  then show ?case by simp
next
  case (Cons k ks)
  have "filter (\<lambda>(k', v). k' \<notin> set ks) (AList.delete k d) = filter (\<lambda>(k', v). k' \<notin> set (k # ks)) d"
    by (induction d) (auto simp: AList.delete_eq)
  with Cons show ?case by simp
qed

lemma map_of_fold_delete:
  "k \<in> set ks \<Longrightarrow> map_of (fold AList.delete ks d) k = None"
  by (simp add: fold_delete_filter map_of_eq_None_iff image_iff split_def) 

lemma owned_ids:
  "(e, r) \<in> set d \<Longrightarrow> exec_container_id r = cid \<Longrightarrow>
   e \<in> set [exec_id. (exec_id, exec_info) \<leftarrow> d, exec_container_id exec_info = cid]"
  by (induction d) auto

lemma not_owned_ids:
  "e \<in> set [exec_id. (exec_id, exec_info) \<leftarrow> d, exec_container_id exec_info = cid] \<Longrightarrow>
   \<exists>r. (e, r) \<in> set d \<and> exec_container_id r = cid"
  by (induction d) (auto split: if_splits)


lemma destroy_locked_container_info:
  "map_of (container_info (snd (destroy_locked m cid))) cid = None"
  by (simp add: destroy_locked_def Let_def AList.delete_conv)

lemma destroy_locked_containers:
  "map_of (containers (snd (destroy_locked m cid))) cid = None"
  by (simp add: destroy_locked_def Let_def AList.delete_conv)

lemma destroy_locked_executions:
  "(e, r) \<in> set (executions m) \<Longrightarrow> exec_container_id r = cid \<Longrightarrow>
   map_of (executions (snd (destroy_locked m cid))) e = None"
  using map_of_fold_delete[OF owned_ids, of e r "executions m" cid "executions m"]
  by (simp add: destroy_locked_def Let_def)

lemma destroy_locked_subset:
  "set (executions (snd (destroy_locked m cid))) \<subseteq> set (executions m)"
  by (auto simp: destroy_locked_def Let_def fold_delete_filter)

lemma destroy_locked_no_owned:
  assumes "(e, r) \<in> set (executions (snd (destroy_locked m cid)))"
  shows "exec_container_id r \<noteq> cid"
proof
  assume b: "exec_container_id r = cid"
  from assms destroy_locked_subset have "(e, r) \<in> set (executions m)" by blast
  from destroy_locked_executions[OF this b] have "map_of (executions (snd (destroy_locked m cid))) e = None" .
  then have "e \<notin> fst ` set (executions (snd (destroy_locked m cid)))"
    by (simp add: map_of_eq_None_iff)
  with assms show False by force
qed

lemma delete_absent: "map_of d k = None \<Longrightarrow> AList.delete k d = d"
  by (induction d) (auto split: if_splits)

lemma destroy_locked_twice:
  "destroy_locked (snd (destroy_locked m cid)) cid = (None, snd (destroy_locked m cid))"
proof -
  let ?m1 = "snd (destroy_locked m cid)"
  let ?ids = "[exec_id. (exec_id, exec_info) \<leftarrow> executions ?m1, exec_container_id exec_info = cid]"
  have ids: "?ids = []"
  proof (rule ccontr)
    assume "?ids \<noteq> []"
    then have "hd ?ids \<in> set ?ids" by (rule hd_in_set)
    from not_owned_ids[OF this] destroy_locked_no_owned show False by blast
  qed
  have "destroy_locked ?m1 cid = (map_of (containers ?m1) cid,
          ?m1\<lparr>containers := AList.delete cid (containers ?m1),
            container_info := AList.delete cid (container_info ?m1),
            executions := fold AList.delete [exec_id. (exec_id, exec_info) \<leftarrow> executions ?m1, exec_container_id exec_info = cid] (executions ?m1)\<rparr>)"
    by (simp add: destroy_locked_def Let_def)
  also have "\<dots> = (None, ?m1)"
    unfolding ids
    by (simp add: destroy_locked_containers delete_absent[OF destroy_locked_containers] delete_absent[OF destroy_locked_container_info])
  finally show ?thesis .
qed

lemma destroy_container_state:
  "fst (snd (destroy_container m cid kill)) = snd (destroy_locked m cid)"
  by (cases "destroy_locked m cid") (auto simp: destroy_container_def split: option.splits)

lemma destroy_container_kills:
  "length (snd (snd (destroy_container m cid kill))) \<le> 1"
  by (cases "destroy_locked m cid") (auto simp: destroy_container_def split: option.splits)

lemma destroy_container_route_state:
  "fst (snd (destroy_container_route m cid kill)) = fst (snd (destroy_container m cid kill))"
  by (cases "destroy_container m cid kill" rule: prod_cases3)
     (auto simp: destroy_container_route_def split: sum.splits)

text \<open>
  Claim C6, as the code has it. Whatever the registry and whatever the runtime answers,
  a second \<open>destroy_container\<close> of the same id right after the first raises nothing:
  it returns \<open>False\<close>, leaves the registry as the first call left it and issues no
  kill, so that at most one kill is issued over the two calls. The route leaves the
  registry that \<open>destroy_container\<close> leaves, and it answers a second \<open>DELETE\<close> of the
  same id with the message that the container was destroyed, whatever it answered to
  the first.
\<close>

theorem destroy_twice:
  "destroy_container (fst (snd (destroy_container m cid kill1))) cid kill2
     = (Inr False, fst (snd (destroy_container m cid kill1)), [])
   \<and> length (snd (snd (destroy_container m cid kill1))
             @ snd (snd (destroy_container (fst (snd (destroy_container m cid kill1))) cid kill2))) \<le> 1
   \<and> fst (snd (destroy_container_route m cid kill1)) = fst (snd (destroy_container m cid kill1))
   \<and> destroy_container_route (fst (snd (destroy_container_route m cid kill1))) cid kill2
     = (Inr (JObj [(''message'', JStr (''Container '' @ cid @ '' destroyed''))]),
        fst (snd (destroy_container_route m cid kill1)), [])"
proof -
  have a: "destroy_container (fst (snd (destroy_container m cid kill1))) cid kill2
     = (Inr False, fst (snd (destroy_container m cid kill1)), [])"
    by (simp add: destroy_container_state) (simp add: destroy_container_def destroy_locked_twice)
  have b: "length (snd (snd (destroy_container m cid kill1))
             @ snd (snd (destroy_container (fst (snd (destroy_container m cid kill1))) cid kill2))) \<le> 1"
    unfolding a using destroy_container_kills[of m cid kill1] by simp
  have c: "destroy_container_route (fst (snd (destroy_container_route m cid kill1))) cid kill2
     = (Inr (JObj [(''message'', JStr (''Container '' @ cid @ '' destroyed''))]),
        fst (snd (destroy_container_route m cid kill1)), [])"
    unfolding destroy_container_route_state
    by (simp add: destroy_container_route_def a)
  from a b c destroy_container_route_state[of m cid kill1] show ?thesis by blast
qed

text \<open>
  Claim C6 as stated fails: on the example manager the second call returns \<open>False\<close>
  instead of raising, and the route answers the second \<open>DELETE\<close> with the message that
  the container was destroyed, not with a 404.
\<close>

theorem destroy_twice_counterexample:
  "fst (destroy_container (fst (snd (destroy_container example_manager ''c1'' kill_ok))) ''c1'' kill_ok) = Inr False
   \<and> fst (destroy_container_route (fst (snd (destroy_container_route example_manager ''c1'' kill_ok))) ''c1'' kill_ok)
       = Inr (JObj [(''message'', JStr ''Container c1 destroyed'')])"
  by (simp add: destroy_container_route_def destroy_container_def destroy_locked_def example_manager_def kill_ok_def Let_def)

text \<open>
  On the example manager with a first kill that raises: the first \<open>DELETE\<close> raises the
  HTTP 500 error, the second is answered with the message, and one kill was issued.
\<close>

theorem destroy_twice_witness:
  "destroy_container (fst (snd (destroy_container example_manager ''c1'' kill_fails))) ''c1'' kill_ok
     = (Inr False, fst (snd (destroy_container example_manager ''c1'' kill_fails)), [])
   \<and> length (snd (snd (destroy_container example_manager ''c1'' kill_fails))
             @ snd (snd (destroy_container
                 (fst (snd (destroy_container example_manager ''c1'' kill_fails))) ''c1'' kill_ok))) \<le> 1
   \<and> fst (destroy_container_route example_manager ''c1'' kill_fails)
       = Inl (HTTPException 500 ''Failed to destroy container: no such container'')
   \<and> destroy_container_route
         (fst (snd (destroy_container_route example_manager ''c1'' kill_fails))) ''c1'' kill_ok
       = (Inr (JObj [(''message'', JStr (''Container '' @ ''c1'' @ '' destroyed''))]),
          fst (snd (destroy_container_route example_manager ''c1'' kill_fails)), [])
   \<and> snd (snd (destroy_container_route example_manager ''c1'' kill_fails)) = [7]"
proof -
  have first: "fst (destroy_container_route example_manager ''c1'' kill_fails)
       = Inl (HTTPException 500 ''Failed to destroy container: no such container'')
     \<and> snd (snd (destroy_container_route example_manager ''c1'' kill_fails)) = [7]"
    by (simp add: destroy_container_route_def destroy_container_def destroy_locked_def
        example_manager_def kill_fails_def Let_def)
  from destroy_twice [of example_manager "''c1''" kill_fails kill_ok] first
  show ?thesis by blast
qed



text \<open>
  Claim C8. For a registered id, \<open>get_container\<close> returns the handle and sets the
  \<open>last_used_at\<close> of that id's record to the clock reading, changing nothing else: the
  other fields of the record, the records of the other ids, the handles and the
  executions stay. \<open>get_container_info\<close> and \<open>list_containers\<close> return the manager
  as they found it.
\<close>

theorem lookup_touch_frame:
  assumes "map_of (containers m) cid = Some c"
    and "map_of (container_info m) cid = Some info"
  shows "get_container m cid now =
           (Inr c, m\<lparr>container_info := AList.update cid (info\<lparr>last_used_at := now\<rparr>) (container_info m)\<rparr>)
       \<and> map_of (container_info (snd (get_container m cid now))) cid = Some (info\<lparr>last_used_at := now\<rparr>)
       \<and> (\<forall>other. other \<noteq> cid \<longrightarrow>
            map_of (container_info (snd (get_container m cid now))) other = map_of (container_info m) other)
       \<and> get_container_info m cid = (Inr info, m)
       \<and> list_containers m = (map snd (container_info m), m)"
  using assms
  by (simp add: get_container_def update_container_usage_def get_container_info_def
      list_containers_def AList.update_conv')

theorem lookup_touch_frame_witness:
  "map_of (containers example_manager) ''c1'' = Some 7
   \<and> map_of (container_info example_manager) ''c1'' = Some example_info
   \<and> map_of (container_info (snd (get_container example_manager ''c1'' 500))) ''c1''
       = Some (example_info\<lparr>last_used_at := 500\<rparr>)
   \<and> get_container_info example_manager ''c1'' = (Inr example_info, example_manager)
   \<and> list_containers example_manager = (map snd (container_info example_manager), example_manager)"
proof -
  have h1: "map_of (containers example_manager) ''c1'' = Some 7"
    by (simp add: example_manager_def)
  have h2: "map_of (container_info example_manager) ''c1'' = Some example_info"
    by (simp add: example_manager_def)
  from lookup_touch_frame[OF h1 h2, of 500] h1 h2 show ?thesis by blast
qed

text \<open>
  Claim C9 fails on the code. With one tool \<open>echo\<close> whose sources hold a descriptor,
  the route answers \<open>tools = ["echo"]\<close>, the list of the keys, and not the list of what
  \<open>get_mcp_sources\<close> produced for the tools.
\<close>

theorem tools_are_names:
  "fst (get_mcp_server_tools example_manager ''c1'' ''echo'' 500 (Inr example_sources))
     = Inr (JObj [(''server_name'', JStr ''echo''), (''tools'', JArr [JStr ''echo''])])
   \<and> JArr [JStr ''echo''] \<noteq> JArr (map snd example_sources)"
  by (simp add: get_mcp_server_tools_def get_container_def update_container_usage_def
      example_manager_def example_sources_def echo_descriptor_def)

section \<open>The session state machine\<close>

lemma state_send: "state (snd (send_message s msg now)) = state s"
  by (simp add: send_message_def)

lemma state_receive: "state (snd (receive_message s arr now)) = state s"
  by (simp add: receive_message_def split: arrival.splits line.splits)

lemma state_stop_begin: "state (stop_begin s) = CLOSING"
  by (simp add: stop_begin_def)

lemma state_stop:
  "state (snd (stop s outcome)) =
     (if state s = CLOSED then CLOSED
      else if state s = CLOSING then CLOSING
      else if process s \<noteq> None \<and> returncode (the (process s)) = None \<and> (\<exists>msg. outcome = KillRaises msg)
      then CLOSING else CLOSED)"
  by (auto simp: stop_def stop_begin_def Let_def split: option.splits stop_outcome.splits)

lemma state_start:
  "state (snd (start s sp now)) = (case sp of Spawned p \<Rightarrow> ACTIVE | SpawnFails msg \<Rightarrow> ERROR)"
  by (simp add: start_def split: spawn.splits)

lemma rank_stop: "rank (state s) \<le> rank (state (snd (stop s outcome)))"
  by (cases "state s") (simp_all add: state_stop)

lemma assigned_sorted:
  assumes "is_start x \<longrightarrow> state s = INITIALIZING \<or> state s = ACTIVE"
  shows "sorted (map rank (state s # assigned s x @ [state (apply_op s x)]))"
proof (cases x)
  case (Start sp now)
  with assms show ?thesis by (auto simp: state_start split: spawn.splits)
next
  case (SendMessage m now)
  then show ?thesis by (simp add: state_send)
next
  case (ReceiveMessage arr now)
  then show ?thesis by (simp add: state_receive)
next
  case (Stop outcome)
  then show ?thesis by (cases "state s") (auto simp: state_stop state_stop_begin)
qed

lemma assigned_last:
  "last (state s # assigned s x) = state (apply_op s x)"
  by (cases x) (auto simp: state_send state_receive state_stop)

lemma sorted_glue:
  fixes xs ys :: "nat list"
  assumes "sorted (xs @ [a])" "sorted (a # ys)"
  shows "sorted (xs @ ys)"
  using assms by (auto simp: sorted_append intro: order_trans)

lemma visited_monotonic:
  "starts_live s xs \<Longrightarrow> sorted (map rank (state s # assignments s xs))"
proof (induction xs arbitrary: s)
  case Nil
  then show ?case by simp
next
  case (Cons x xs)
  have live: "is_start x \<longrightarrow> state s = INITIALIZING \<or> state s = ACTIVE"
    using Cons.prems by (cases x) auto
  have next_live: "starts_live (apply_op s x) xs"
    using Cons.prems by (cases x) auto
  have a: "sorted (map rank (state s # assigned s x) @ [rank (state (apply_op s x))])"
    using assigned_sorted[OF live] by simp
  have b: "sorted (rank (state (apply_op s x)) # map rank (assignments (apply_op s x) xs))"
    using Cons.IH[OF next_live] by simp
  from sorted_glue[OF a b] show ?case by simp
qed

lemma run_closed:
  "state s = CLOSED \<Longrightarrow> \<not> list_ex is_start xs \<Longrightarrow> state (run s xs) = CLOSED"
proof (induction xs arbitrary: s)
  case Nil
  then show ?case by simp
next
  case (Cons x xs)
  then have "state (apply_op s x) = CLOSED"
    by (cases x) (auto simp: state_send state_receive state_stop)
  with Cons show ?case by simp
qed

text \<open>
  Claim C5, as the code has it. Over every sequence of \<open>start\<close>, \<open>send_message\<close>,
  \<open>receive_message\<close> and \<open>stop\<close> in which each \<open>start\<close> is called on a session in
  \<open>initializing\<close> or \<open>active\<close>, the states gone through never step back in the order
  initializing, active, error, closing, closed. And no sequence of \<open>send_message\<close>,
  \<open>receive_message\<close> and \<open>stop\<close> moves a closed session out of \<open>closed\<close>.
\<close>

theorem session_state_monotonic:
  "(starts_live s xs \<longrightarrow> monotonic (visited s xs))
   \<and> (state s = CLOSED \<and> \<not> list_ex is_start xs \<longrightarrow> state (run s xs) = CLOSED)"
  unfolding monotonic_def visited_def using visited_monotonic run_closed by blast

text \<open>
  Claim C5 as stated fails: \<open>start\<close> does not look at the state, and called on the
  example session after \<open>start\<close> and \<open>stop\<close> have closed it, it sets \<open>active\<close>.
\<close>

theorem session_restart_counterexample:
  "state (run example_session [Start (Spawned 41) 1, Stop (Exits 0)]) = CLOSED
   \<and> state (run example_session [Start (Spawned 41) 1, Stop (Exits 0), Start (Spawned 42) 2]) = ACTIVE
   \<and> \<not> monotonic (visited example_session [Start (Spawned 41) 1, Stop (Exits 0), Start (Spawned 42) 2])"
  by (simp add: example_session_def MCPSession_init_def start_def stop_def stop_begin_def
      monotonic_def visited_def Let_def)

theorem session_state_monotonic_witness:
  "starts_live example_session
     [Start (Spawned 41) 1, SendMessage JNull 2, ReceiveMessage Expired 3, Stop (Exits 0), Stop (Exits 0)]
   \<and> monotonic (visited example_session
     [Start (Spawned 41) 1, SendMessage JNull 2, ReceiveMessage Expired 3, Stop (Exits 0), Stop (Exits 0)])
   \<and> state (run example_session [Start (Spawned 41) 1, Stop (Exits 0)]) = CLOSED
   \<and> \<not> list_ex is_start [SendMessage JNull 2, ReceiveMessage Expired 3, Stop (Exits 0)]
   \<and> state (run (run example_session [Start (Spawned 41) 1, Stop (Exits 0)])
        [SendMessage JNull 2, ReceiveMessage Expired 3, Stop (Exits 0)]) = CLOSED"
proof -
  let ?xs = "[Start (Spawned 41) 1, SendMessage JNull 2, ReceiveMessage Expired 3, Stop (Exits 0), Stop (Exits 0)]"
  let ?s1 = "run example_session [Start (Spawned 41) 1, Stop (Exits 0)]"
  let ?ys = "[SendMessage JNull 2, ReceiveMessage Expired 3, Stop (Exits 0)]"
  have h1: "starts_live example_session ?xs"
    by (simp add: example_session_def MCPSession_init_def start_def)
  have h2: "state ?s1 = CLOSED"
    by (simp add: example_session_def MCPSession_init_def start_def stop_def stop_begin_def Let_def)
  have h3: "\<not> list_ex is_start ?ys" by simp
  from session_state_monotonic[of example_session ?xs] h1
  have c1: "monotonic (visited example_session ?xs)" by blast
  from session_state_monotonic[of ?s1 ?ys] h2 h3
  have c2: "state (run ?s1 ?ys) = CLOSED" by blast
  from h1 h2 h3 c1 c2 show ?thesis by blast
qed

section \<open>The session registry\<close>

lemma create_new:
  assumes "find_session st p cid sname sid_opt = None"
  shows "get_or_create_session st p cid sname sid_opt cmd as wd ev uuid (Spawned pd) now now2 =
    (let nid = (case sid_opt of None \<Rightarrow> ''mcp-'' @ uuid
                 | Some sid \<Rightarrow> if sid = [] then ''mcp-'' @ uuid else sid);
         s = snd (start (MCPSession_init nid cid sname
                   (case cmd of None \<Rightarrow> ''uvx'' | Some c \<Rightarrow> c)
                   (case as of None \<Rightarrow> [''supergateway'', ''--stdio'', ''mcp-server-'' @ sname]
                      | Some a \<Rightarrow> a) wd ev (session_timeout p) now) (Spawned pd) now2)
     in (Inr (nid, length st), st @ [s], p\<lparr>sessions := AList.update nid (length st) (sessions p)\<rparr>))"
  using assms by (simp add: get_or_create_session_def Let_def start_def)

lemma started_fields:
  "session_id (snd (start (MCPSession_init nid cid sname c a wd ev tmo now) (Spawned pd) now2)) = nid
   \<and> container_id (snd (start (MCPSession_init nid cid sname c a wd ev tmo now) (Spawned pd) now2)) = cid
   \<and> server_name (snd (start (MCPSession_init nid cid sname c a wd ev tmo now) (Spawned pd) now2)) = sname
   \<and> state (snd (start (MCPSession_init nid cid sname c a wd ev tmo now) (Spawned pd) now2)) = ACTIVE
   \<and> process (snd (start (MCPSession_init nid cid sname c a wd ev tmo now) (Spawned pd) now2))
        = Some \<lparr>pid = pd, returncode = None\<rparr>"
  by (simp add: start_def MCPSession_init_def)

text \<open>
  Claim C4, as the code has it, for a call whose child is spawned. When no \<open>session_id\<close>
  is supplied (absent or empty), the new session is stored under \<open>mcp-\<close> followed by
  the uuid drawn. When a non-empty \<open>session_id\<close> is supplied that the registry does not
  hold, the new session is stored under the supplied id itself. In both cases the
  session is a new object of the store, started, and carries that id.
\<close>

theorem new_session_registration:
  fixes st p cid sname sid_opt cmd as wd ev uuid pd now now2
  defines "res \<equiv> get_or_create_session st p cid sname sid_opt cmd as wd ev uuid (Spawned pd) now now2"
  shows "(sid_opt = None \<or> sid_opt = Some [] \<longrightarrow>
            fst res = Inr (''mcp-'' @ uuid, length st)
          \<and> map_of (sessions (snd (snd res))) (''mcp-'' @ uuid) = Some (length st)
          \<and> session_id (fst (snd res) ! length st) = ''mcp-'' @ uuid
          \<and> state (fst (snd res) ! length st) = ACTIVE)
       \<and> (\<forall>sid. sid_opt = Some sid \<and> sid \<noteq> [] \<and> map_of (sessions p) sid = None \<longrightarrow>
            fst res = Inr (sid, length st)
          \<and> map_of (sessions (snd (snd res))) sid = Some (length st)
          \<and> session_id (fst (snd res) ! length st) = sid
          \<and> state (fst (snd res) ! length st) = ACTIVE)"
proof -
  have a: "sid_opt = None \<or> sid_opt = Some [] \<Longrightarrow> find_session st p cid sname sid_opt = None"
    by (auto simp: find_session_def)
  have b: "\<And>sid. sid_opt = Some sid \<Longrightarrow> map_of (sessions p) sid = None \<Longrightarrow>
             find_session st p cid sname sid_opt = None"
    by (auto simp: find_session_def)
  show ?thesis
    unfolding res_def
    using a b
    by (auto simp: create_new Let_def update_Some_unfold started_fields)
qed

text \<open>
  Claim C4 as stated fails for a supplied id \<open>abc\<close> that the registry does not hold:
  the session is stored under \<open>abc\<close>, which does not begin with \<open>mcp-\<close>.
\<close>

theorem supplied_id_counterexample:
  "fst (get_or_create_session [] example_proxy ''c1'' ''echo'' (Some ''abc'') None None None None
          ''0b4e7a1c'' (Spawned 41) 1 2) = Inr (''abc'', 0)
   \<and> sessions (snd (snd (get_or_create_session [] example_proxy ''c1'' ''echo'' (Some ''abc'')
          None None None None ''0b4e7a1c'' (Spawned 41) 1 2))) = [(''abc'', 0)]
   \<and> \<not> prefix ''mcp-'' ''abc''"
  by (simp add: get_or_create_session_def find_session_def example_proxy_def start_def Let_def)

theorem new_session_registration_witness:
  "fst (get_or_create_session [] example_proxy ''c1'' ''echo'' None None None None None
          ''0b4e7a1c'' (Spawned 41) 1 2) = Inr (''mcp-'' @ ''0b4e7a1c'', length ([] :: store))
   \<and> map_of (sessions example_proxy) ''abc'' = None
   \<and> fst (get_or_create_session [] example_proxy ''c1'' ''echo'' (Some ''abc'') None None None None
          ''0b4e7a1c'' (Spawned 41) 1 2) = Inr (''abc'', length ([] :: store))"
proof -
  have h: "map_of (sessions example_proxy) ''abc'' = None" by (simp add: example_proxy_def)
  from new_session_registration[of None "[]" example_proxy "''c1''" "''echo''" None None None None
      "''0b4e7a1c''" 41 1 2]
  have c1: "fst (get_or_create_session [] example_proxy ''c1'' ''echo'' None None None None None
          ''0b4e7a1c'' (Spawned 41) 1 2) = Inr (''mcp-'' @ ''0b4e7a1c'', length ([] :: store))"
    by blast
  from new_session_registration[of "Some ''abc''" "[]" example_proxy "''c1''" "''echo''" None None None None
      "''0b4e7a1c''" 41 1 2] h
  have c2: "fst (get_or_create_session [] example_proxy ''c1'' ''echo'' (Some ''abc'') None None None None
          ''0b4e7a1c'' (Spawned 41) 1 2) = Inr (''abc'', length ([] :: store))"
    by blast
  from h c1 c2 show ?thesis by blast
qed

lemma stop_idle_untouched:
  assumes "\<forall>k. map_of (sessions p) k \<noteq> Some old"
  shows "fst (snd (stop_idle st p sids outcome)) ! old = st ! old"
  using assms
proof (induction sids arbitrary: st p)
  case Nil
  then show ?case by simp
next
  case (Cons sid sids)
  show ?case
  proof (cases "map_of (sessions p) sid")
    case None
    with Cons show ?thesis by simp
  next
    case (Some r)
    with Cons.prems have ne: "r \<noteq> old" by metis
    let ?p1 = "p\<lparr>sessions := AList.delete sid (sessions p)\<rparr>"
    have inv: "\<forall>k. map_of (sessions ?p1) k \<noteq> Some old"
      using Cons.prems by (simp add: AList.delete_conv)
    obtain res s1 where st: "stop (st ! r) (outcome r) = (res, s1)" by (cases "stop (st ! r) (outcome r)")
    show ?thesis
    proof (cases res)
      case (Inl e)
      with Some st ne show ?thesis by (simp add: Let_def)
    next
      case (Inr u)
      with Some st ne Cons.IH[OF inv, of "st[r := s1]"] show ?thesis by (simp add: Let_def)
    qed
  qed
qed

lemma replaced_when_sole_id:
  fixes st p cid sname sid cmd as wd ev uuid pd now now2
  defines "res \<equiv> get_or_create_session st p cid sname (Some sid) cmd as wd ev uuid (Spawned pd) now now2"
  assumes nonempty: "sid \<noteq> []"
    and registered: "map_of (sessions p) sid = Some old"
    and inside: "old < length st"
    and mismatch: "container_id (st ! old) \<noteq> cid \<or> server_name (st ! old) \<noteq> sname"
    and only: "\<forall>k. k \<noteq> sid \<longrightarrow> map_of (sessions p) k \<noteq> Some old"
  shows "fst res = Inr (sid, length st)
       \<and> map_of (sessions (snd (snd res))) sid = Some (length st)
       \<and> length st \<noteq> old
       \<and> container_id (fst (snd res) ! length st) = cid
       \<and> server_name (fst (snd res) ! length st) = sname
       \<and> state (fst (snd res) ! length st) = ACTIVE
       \<and> process (fst (snd res) ! length st) = Some \<lparr>pid = pd, returncode = None\<rparr>
       \<and> fst (snd res) ! old = st ! old
       \<and> (\<forall>k. map_of (sessions (snd (snd res))) k \<noteq> Some old)
       \<and> (\<forall>now3 outcome.
            fst (snd (cleanup_pass (fst (snd res)) (snd (snd res)) now3 outcome)) ! old = st ! old)"
proof -
  have f: "find_session st p cid sname (Some sid) = None"
    using nonempty registered mismatch by (auto simp: find_session_def)
  let ?s = "snd (start (MCPSession_init sid cid sname
                   (case cmd of None \<Rightarrow> ''uvx'' | Some c \<Rightarrow> c)
                   (case as of None \<Rightarrow> [''supergateway'', ''--stdio'', ''mcp-server-'' @ sname]
                      | Some a \<Rightarrow> a) wd ev (session_timeout p) now) (Spawned pd) now2)"
  have r: "res = (Inr (sid, length st), st @ [?s],
                  p\<lparr>sessions := AList.update sid (length st) (sessions p)\<rparr>)"
    unfolding res_def using nonempty by (simp add: create_new[OF f] Let_def)
  have old: "fst (snd res) ! old = st ! old"
    using inside by (simp add: r nth_append)
  have unreach: "\<forall>k. map_of (sessions (snd (snd res))) k \<noteq> Some old"
    using only inside by (auto simp: r update_Some_unfold)
  have reaper: "\<forall>now3 outcome.
            fst (snd (cleanup_pass (fst (snd res)) (snd (snd res)) now3 outcome)) ! old = st ! old"
    unfolding cleanup_pass_def using stop_idle_untouched[OF unreach] old by simp
  show ?thesis
    using old unreach reaper inside by (simp add: r update_Some_unfold started_fields)
qed

lemma update_snd_subset:
  "set (map snd (AList.update k v al)) \<subseteq> insert v (set (map snd al))"
  by (induction al) auto

lemma update_distinct_snd:
  "distinct (map snd al) \<Longrightarrow> v \<notin> set (map snd al) \<Longrightarrow> distinct (map snd (AList.update k v al))"
proof (induction al)
  case Nil
  then show ?case by simp
next
  case (Cons a al)
  show ?case
  proof (cases "fst a = k")
    case True
    with Cons.prems show ?thesis by auto
  next
    case False
    have "snd a \<notin> set (map snd (AList.update k v al))"
      using update_snd_subset[of k v al] Cons.prems by auto
    with False Cons show ?thesis by auto
  qed
qed

lemma delete_distinct_snd:
  "distinct (map snd al) \<Longrightarrow> distinct (map snd (AList.delete k al))"
  by (simp add: AList.delete_eq distinct_map_filter)

lemma registry_ok_only:
  assumes "registry_ok st p" "map_of (sessions p) sid = Some old" "map_of (sessions p) k = Some old"
  shows "k = sid"
proof -
  from assms(2,3) have a: "(sid, old) \<in> set (sessions p)" "(k, old) \<in> set (sessions p)"
    by (auto dest: map_of_SomeD)
  from assms(1) have "inj_on snd (set (sessions p))"
    by (simp add: registry_ok_def distinct_map)
  from inj_onD[OF this _ a(2) a(1)] show ?thesis by simp
qed

lemma registry_ok_inside:
  assumes "registry_ok st p" "map_of (sessions p) sid = Some r"
  shows "r < length st"
proof -
  from assms(2) have "r \<in> set (map snd (sessions p))"
    by (force dest: map_of_SomeD)
  with assms(1) show ?thesis by (auto simp: registry_ok_def list_all_iff)
qed

lemma registry_ok_empty: "registry_ok [] \<lparr>session_timeout = t, cleanup_interval = c, sessions = []\<rparr>"
  by (simp add: registry_ok_def)

lemma find_session_Some:
  "find_session st p cid sname sid_opt = Some (sid, r) \<Longrightarrow> map_of (sessions p) sid = Some r"
  by (auto simp: find_session_def split: option.splits if_splits)

lemma registry_ok_get_or_create:
  assumes "registry_ok st p"
  shows "registry_ok (fst (snd (get_or_create_session st p cid sname sid_opt cmd as wd ev uuid sp now now2)))
                     (snd (snd (get_or_create_session st p cid sname sid_opt cmd as wd ev uuid sp now now2)))"
proof (cases "find_session st p cid sname sid_opt")
  case (Some x)
  obtain sid r where x: "x = (sid, r)" by (cases x)
  with Some assms show ?thesis
    by (simp add: get_or_create_session_def registry_ok_def)
next
  case None
  have fresh: "length st \<notin> set (map snd (sessions p))"
    using assms by (auto simp: registry_ok_def list_all_iff)
  have grow: "\<And>k s. list_all (\<lambda>r. r < length (st @ [s])) (map snd (AList.update k (length st) (sessions p)))"
  proof -
    fix k s
    have "set (map snd (AList.update k (length st) (sessions p))) \<subseteq> insert (length st) (set (map snd (sessions p)))"
      by (rule update_snd_subset)
    moreover have "\<forall>r \<in> set (map snd (sessions p)). r < length st"
      using assms by (simp add: registry_ok_def list_all_iff)
    ultimately show "list_all (\<lambda>r. r < length (st @ [s])) (map snd (AList.update k (length st) (sessions p)))"
      unfolding list_all_iff by fastforce
  qed
  have keep: "\<And>s. list_all (\<lambda>r. r < length (st @ [s])) (map snd (sessions p))"
    using assms by (auto simp: registry_ok_def list_all_iff)
  show ?thesis
    using None assms fresh grow keep
    by (cases sp)
       (simp_all add: get_or_create_session_def Let_def start_def registry_ok_def
          distinct_update update_distinct_snd)
qed

text \<open>
  Claim C10, as the code has it, for a call whose child is spawned. In a registry as
  the proxy keeps it, let a non-empty \<open>session_id\<close> be
  registered for the session object \<open>old\<close>, whose container id or server name differs
  from the ones asked for. Then, when the child is spawned, \<open>get_or_create_session\<close> returns a
  new object under the same id: it is started (\<open>active\<close>, with its own running child)
  and the registry maps the id to it. The old object is left as it was, its state, its
  child and its tasks included: \<open>stop\<close> was not called on it. No id of the registry
  leads to it any more, and no pass of the reaper changes it.
\<close>

theorem mismatched_session_replaced:
  fixes st p cid sname sid cmd as wd ev uuid pd now now2
  defines "res \<equiv> get_or_create_session st p cid sname (Some sid) cmd as wd ev uuid (Spawned pd) now now2"
  assumes ok: "registry_ok st p"
    and nonempty: "sid \<noteq> []"
    and registered: "map_of (sessions p) sid = Some old"
    and mismatch: "container_id (st ! old) \<noteq> cid \<or> server_name (st ! old) \<noteq> sname"
  shows "fst res = Inr (sid, length st)
       \<and> map_of (sessions (snd (snd res))) sid = Some (length st)
       \<and> length st \<noteq> old
       \<and> container_id (fst (snd res) ! length st) = cid
       \<and> server_name (fst (snd res) ! length st) = sname
       \<and> state (fst (snd res) ! length st) = ACTIVE
       \<and> process (fst (snd res) ! length st) = Some \<lparr>pid = pd, returncode = None\<rparr>
       \<and> fst (snd res) ! old = st ! old
       \<and> (\<forall>k. map_of (sessions (snd (snd res))) k \<noteq> Some old)
       \<and> (\<forall>now3 outcome.
            fst (snd (cleanup_pass (fst (snd res)) (snd (snd res)) now3 outcome)) ! old = st ! old)"
proof -
  have inside: "old < length st" using registry_ok_inside[OF ok registered] .
  have only: "\<forall>k. k \<noteq> sid \<longrightarrow> map_of (sessions p) k \<noteq> Some old"
    using registry_ok_only[OF ok registered] by blast
  show ?thesis
    unfolding res_def
    using replaced_when_sole_id[OF nonempty registered inside mismatch only] by blast
qed

text \<open>
  Claim C10 as stated fails when the child cannot be spawned: with the id registered for
  a session of another server, \<open>get_or_create_session\<close> raises the HTTP 500 error,
  stores nothing, and the registry still maps the id to the old session.
\<close>

theorem spawn_failure_counterexample:
  "registry_ok example_store example_registry
   \<and> map_of (sessions example_registry) ''mcp-1'' = Some 0
   \<and> server_name (example_store ! 0) \<noteq> ''fetch''
   \<and> fst (get_or_create_session example_store example_registry ''c1'' ''fetch'' (Some ''mcp-1'')
            None None None None ''0b4e7a1c'' (SpawnFails ''No such file or directory'') 10 11)
       = Inl (HTTPException 500 ''Failed to start MCP session for server fetch'')
   \<and> snd (snd (get_or_create_session example_store example_registry ''c1'' ''fetch'' (Some ''mcp-1'')
            None None None None ''0b4e7a1c'' (SpawnFails ''No such file or directory'') 10 11))
       = example_registry
   \<and> map_of (sessions (snd (snd (get_or_create_session example_store example_registry ''c1''
            ''fetch'' (Some ''mcp-1'') None None None None ''0b4e7a1c''
            (SpawnFails ''No such file or directory'') 10 11)))) ''mcp-1'' = Some 0"
  by (simp add: registry_ok_def get_or_create_session_def find_session_def example_registry_def
      example_store_def example_active_def example_session_def example_proxy_def start_def
      MCPSession_init_def Let_def)

theorem mismatched_session_replaced_witness:
  "registry_ok example_store example_registry
   \<and> ''mcp-1'' \<noteq> []
   \<and> map_of (sessions example_registry) ''mcp-1'' = Some 0
   \<and> server_name (example_store ! 0) \<noteq> ''fetch''
   \<and> fst (get_or_create_session example_store example_registry ''c1'' ''fetch'' (Some ''mcp-1'')
            None None None None ''0b4e7a1c'' (Spawned 42) 10 11) = Inr (''mcp-1'', length example_store)
   \<and> fst (snd (get_or_create_session example_store example_registry ''c1'' ''fetch'' (Some ''mcp-1'')
            None None None None ''0b4e7a1c'' (Spawned 42) 10 11)) ! 0 = example_store ! 0
   \<and> state (example_store ! 0) = ACTIVE
   \<and> process (example_store ! 0) = Some \<lparr>pid = 41, returncode = None\<rparr>"
proof -
  have h0: "registry_ok example_store example_registry"
    by (simp add: registry_ok_def example_store_def example_registry_def)
  have h1: "''mcp-1'' \<noteq> []" by simp
  have h2: "map_of (sessions example_registry) ''mcp-1'' = Some 0"
    by (simp add: example_registry_def)
  have h3: "server_name (example_store ! 0) \<noteq> ''fetch''"
    by (simp add: example_store_def example_active_def example_session_def start_def
        MCPSession_init_def)
  then have h4: "container_id (example_store ! 0) \<noteq> ''c1'' \<or> server_name (example_store ! 0) \<noteq> ''fetch''"
    by simp
  have s: "state (example_store ! 0) = ACTIVE
           \<and> process (example_store ! 0) = Some \<lparr>pid = 41, returncode = None\<rparr>"
    by (simp add: example_store_def example_active_def example_session_def start_def
        MCPSession_init_def)
  from mismatched_session_replaced [where st = example_store and p = example_registry
      and cid = "''c1''" and sname = "''fetch''" and sid = "''mcp-1''" and old = 0
      and cmd = None and as = None and wd = None and ev = None and uuid = "''0b4e7a1c''"
      and pd = 42 and now = 10 and ?now2.0 = 11, OF h0 h1 h2 h4]
    h0 h1 h2 h3 s
  show ?thesis by blast
qed

section \<open>The request generator\<close>

lemma error_frame_id: "py_getitem (error_frame msg R) ''id'' = Inr R"
  by (simp add: py_getitem_def error_frame_def)

lemma has_id_error_frame: "has_id (error_frame msg R) R"
  by (simp add: has_id_def error_frame_id)

lemma has_id_match: "matches_request response R = Inr True \<Longrightarrow> has_id response R"
  by (auto simp: matches_request_def has_id_def split: sum.splits bool.splits if_splits)

lemma receive_loop_last:
  "receive_loop st r R evs = (frames, Returned, st') \<Longrightarrow> frames \<noteq> [] \<and> has_id (last frames) R"
proof (induction st r R evs arbitrary: frames st' rule: receive_loop.induct)
  case (1 st r request_id)
  then show ?case by simp
next
  case (2 st r request_id outcome evs)
  then show ?case by simp
next
  case (3 st r request_id arr now evs)
  obtain res s1 where rm: "receive_message (st ! r) arr now = (res, s1)"
    by (cases "receive_message (st ! r) arr now")
  show ?case
  proof (cases res)
    case (Inl e)
    with rm "3.prems" show ?thesis
      by (cases e) (auto simp: timeout_frame_def has_id_error_frame)
  next
    case (Inr response)
    show ?thesis
    proof (cases "matches_request response request_id")
      case (Inl e)
      with rm Inr "3.prems" show ?thesis by simp
    next
      case m: (Inr b)
      show ?thesis
      proof (cases b)
        case True
        with rm Inr m "3.prems" show ?thesis by (auto simp: has_id_match)
      next
        case False
        obtain fs en st2 where rl: "receive_loop (st[r := s1]) r request_id evs = (fs, en, st2)"
          by (cases "receive_loop (st[r := s1]) r request_id evs")
        with rm Inr m False "3.prems" have eq: "frames = response # fs" "en = Returned" "st2 = st'"
          by auto
        from False have bf: "b = False" by simp
        from rl eq have rl2: "receive_loop (st[r := s1]) r request_id evs = (fs, Returned, st2)"
          by simp
        from "3.IH"[OF rm[symmetric] Inr m bf rl2]
        have "fs \<noteq> [] \<and> has_id (last fs) request_id" .
        with eq show ?thesis by simp
      qed
    qed
  qed
qed

lemma state_update_active:
  "state (st ! r) = ACTIVE \<Longrightarrow> state s = ACTIVE \<Longrightarrow> state (st[r := s] ! r) = ACTIVE"
  by (cases "r < length st") (simp_all add: list_update_beyond)

lemma receive_loop_timeout:
  assumes "state (st ! r) = ACTIVE" "list_all (passes_by R) pre"
  shows "fst (receive_loop st r R (pre @ Receive Expired t # rest)) = map frame_of pre @ [timeout_frame R]
       \<and> fst (snd (receive_loop st r R (pre @ Receive Expired t # rest))) = Returned"
  using assms
proof (induction pre arbitrary: st)
  case Nil
  then show ?case by (simp add: receive_message_def)
next
  case (Cons ev pre)
  from Cons.prems(2) obtain response now where ev: "ev = Receive (Got (Line response)) now"
    and nm: "matches_request response R = Inr False"
    by (cases "(R, ev)" rule: passes_by.cases) auto
  let ?s1 = "(st ! r)\<lparr>last_activity := now\<rparr>"
  have rm: "receive_message (st ! r) (Got (Line response)) now = (Inr response, ?s1)"
    using Cons.prems(1) by (simp add: receive_message_def)
  have act: "state (st[r := ?s1] ! r) = ACTIVE"
    using Cons.prems(1) by (simp add: state_update_active)
  from Cons.prems(2) have rest: "list_all (passes_by R) pre" by simp
  from Cons.IH[OF act rest] show ?case
    by (auto simp: ev rm nm split: prod.splits)
qed

lemma py_get_obj: "py_get d k = Inr v \<Longrightarrow> \<exists>kvs. d = JObj kvs"
  by (cases d) (simp_all add: py_get_def)

lemma py_get_total: "py_get (JObj kvs) k = Inr (case map_of kvs k of None \<Rightarrow> JNull | Some v \<Rightarrow> v)"
  by (simp add: py_get_def split: option.splits)

lemma handle_body_sent:
  assumes sent: "fst (send_message (st ! r) request_data now) = Inr ()"
    and rid: "py_get request_data ''id'' = Inr R"
  shows "\<exists>st2. state (st2 ! r) = ACTIVE \<and>
           handle_body st r request_data now evs =
             (if R = JNull then ([], Returned, st2) else receive_loop st2 r R evs)"
proof -
  from py_get_obj[OF rid] obtain kvs where d: "request_data = JObj kvs" by blast
  from sent have act: "state (st ! r) = ACTIVE"
    by (auto simp: send_message_def split: if_splits)
  let ?s1 = "(st ! r)\<lparr>last_activity := now, stdin_queue := stdin_queue (st ! r) @ [request_data]\<rparr>"
  have sm: "send_message (st ! r) request_data now = (Inr (), ?s1)"
    using act by (simp add: send_message_def)
  obtain meth where m: "py_get request_data ''method'' = Inr meth"
    unfolding d py_get_total by blast
  let ?s2 = "(if py_eq meth (JStr ''initialize'') then ?s1\<lparr>initialized := True\<rparr> else ?s1)"
  have "state ?s2 = ACTIVE" using act by simp
  then have "state (st[r := ?s2] ! r) = ACTIVE" using act by (rule state_update_active[rotated])
  moreover have "handle_body st r request_data now evs =
             (if R = JNull then ([], Returned, st[r := ?s2]) else receive_loop (st[r := ?s2]) r R evs)"
    by (simp add: handle_body_def sm m rid Let_def)
  ultimately show ?thesis by blast
qed

lemma has_id_string:
  "has_id frame (JStr s) \<Longrightarrow> py_getitem frame ''id'' = Inr (JStr s)"
proof -
  have "\<And>v. py_eq v (JStr s) \<Longrightarrow> v = JStr s"
  proof -
    fix v assume "py_eq v (JStr s)"
    then show "v = JStr s" by (cases v) auto
  qed
  then show "has_id frame (JStr s) \<Longrightarrow> py_getitem frame ''id'' = Inr (JStr s)"
    by (auto simp: has_id_def split: sum.splits)
qed

text \<open>
  Claim C3. When the session is resolved and \<open>send_message\<close> has taken the request, a
  request whose \<open>id\<close> is absent or null makes the generator finish without a frame.
\<close>

theorem notification_yields_no_frame:
  fixes st p cid sname request_data sid_opt cmd as uuid sp now now2 send_now evs
  defines "gen \<equiv> handle_mcp_request st p cid sname request_data sid_opt cmd as uuid sp now now2 send_now evs"
  assumes resolved: "get_or_create_session st p cid sname sid_opt cmd as None None uuid sp now now2
                       = (Inr (sid, r), st1, p1)"
    and sent: "fst (send_message (st1 ! r) request_data send_now) = Inr ()"
    and notification: "py_get request_data ''id'' = Inr JNull"
  shows "fst gen = [] \<and> fst (snd gen) = Returned"
proof -
  from handle_body_sent[OF sent notification, of evs] obtain st2 where
    "handle_body st1 r request_data send_now evs = ([], Returned, st2)" by auto
  then show ?thesis unfolding gen_def by (simp add: handle_mcp_request_def resolved)
qed

theorem notification_yields_no_frame_witness:
  "get_or_create_session example_store example_registry ''c1'' ''echo'' (Some ''mcp-1'')
       None None None None ''0b4e7a1c'' (Spawned 42) 10 11
     = (Inr (''mcp-1'', 0), example_store[0 := (example_store ! 0)\<lparr>last_activity := 10\<rparr>],
        example_registry)
   \<and> fst (send_message (example_store[0 := (example_store ! 0)\<lparr>last_activity := 10\<rparr>] ! 0)
            example_notification 12) = Inr ()
   \<and> py_get example_notification ''id'' = Inr JNull
   \<and> fst (handle_mcp_request example_store example_registry ''c1'' ''echo'' example_notification
            (Some ''mcp-1'') None None ''0b4e7a1c'' (Spawned 42) 10 11 12 []) = []
   \<and> fst (snd (handle_mcp_request example_store example_registry ''c1'' ''echo''
            example_notification (Some ''mcp-1'') None None ''0b4e7a1c'' (Spawned 42) 10 11 12 []))
       = Returned"
proof -
  have h1: "get_or_create_session example_store example_registry ''c1'' ''echo'' (Some ''mcp-1'')
       None None None None ''0b4e7a1c'' (Spawned 42) 10 11
     = (Inr (''mcp-1'', 0), example_store[0 := (example_store ! 0)\<lparr>last_activity := 10\<rparr>],
        example_registry)"
    by (simp add: get_or_create_session_def find_session_def example_registry_def
        example_store_def example_active_def example_session_def start_def MCPSession_init_def)
  have h2: "fst (send_message (example_store[0 := (example_store ! 0)\<lparr>last_activity := 10\<rparr>] ! 0)
            example_notification 12) = Inr ()"
    by (simp add: send_message_def example_store_def example_active_def example_session_def
        start_def MCPSession_init_def)
  have h3: "py_get example_notification ''id'' = Inr JNull"
    by (simp add: py_get_def example_notification_def)
  from notification_yields_no_frame [OF h1 h2 h3, of "[]"] h1 h2 h3 show ?thesis by blast
qed

lemma final_frame_core:
  fixes st p cid sname request_data sid_opt cmd as uuid sp now now2 send_now evs
  defines "gen \<equiv> handle_mcp_request st p cid sname request_data sid_opt cmd as uuid sp now now2 send_now evs"
  assumes resolved: "get_or_create_session st p cid sname sid_opt cmd as None None uuid sp now now2
                       = (Inr (sid, r), st1, p1)"
    and sent: "fst (send_message (st1 ! r) request_data send_now) = Inr ()"
    and rid: "py_get request_data ''id'' = Inr R"
    and nonnull: "R \<noteq> JNull"
  shows "(fst (snd gen) = Returned \<longrightarrow> fst gen \<noteq> [] \<and> has_id (last (fst gen)) R)
       \<and> (\<forall>pre t rest. evs = pre @ Receive Expired t # rest \<and> list_all (passes_by R) pre \<longrightarrow>
            fst gen = map frame_of pre @ [timeout_frame R] \<and> fst (snd gen) = Returned)"
proof -
  from handle_body_sent[OF sent rid, of evs] nonnull obtain st2 where
    act: "state (st2 ! r) = ACTIVE" and
    hb: "handle_body st1 r request_data send_now evs = receive_loop st2 r R evs" by auto
  obtain frames en st3 where rl: "receive_loop st2 r R evs = (frames, en, st3)"
    by (cases "receive_loop st2 r R evs")
  have first: "fst (snd gen) = Returned \<longrightarrow> fst gen \<noteq> [] \<and> has_id (last (fst gen)) R"
  proof (cases en)
    case Returned
    with rl receive_loop_last[of st2 r R evs frames st3]
    show ?thesis unfolding gen_def by (simp add: handle_mcp_request_def resolved hb)
  next
    case (Raised e)
    with rl show ?thesis unfolding gen_def
      by (simp add: handle_mcp_request_def resolved hb on_exception_def rid
          internal_error_frame_def has_id_error_frame)
  next
    case Waiting
    with rl show ?thesis unfolding gen_def by (simp add: handle_mcp_request_def resolved hb)
  qed
  have second: "\<forall>pre t rest. evs = pre @ Receive Expired t # rest \<and> list_all (passes_by R) pre \<longrightarrow>
            fst gen = map frame_of pre @ [timeout_frame R] \<and> fst (snd gen) = Returned"
  proof (intro allI impI)
    fix pre t rest
    assume a: "evs = pre @ Receive Expired t # rest \<and> list_all (passes_by R) pre"
    with receive_loop_timeout[OF act, of R pre t rest] rl
    have "frames = map frame_of pre @ [timeout_frame R]" "en = Returned" by auto
    with rl show "fst gen = map frame_of pre @ [timeout_frame R] \<and> fst (snd gen) = Returned"
      unfolding gen_def by (simp add: handle_mcp_request_def resolved hb)
  qed
  from first second show ?thesis by blast
qed

lemma has_id_int:
  "has_id frame (JInt i) \<Longrightarrow> \<exists>v. py_getitem frame ''id'' = Inr v \<and> num_of v = Some (of_int i)"
proof -
  have "\<And>v. py_eq v (JInt i) \<Longrightarrow> num_of v = Some (of_int i)"
  proof -
    fix v assume "py_eq v (JInt i)"
    then show "num_of v = Some (of_int i)" by (cases v) (auto split: if_splits)
  qed
  then show "has_id frame (JInt i) \<Longrightarrow> \<exists>v. py_getitem frame ''id'' = Inr v \<and> num_of v = Some (of_int i)"
    by (auto simp: has_id_def split: sum.splits)
qed

text \<open>
  Claim C2, as the code has it. Let the session be resolved, let \<open>send_message\<close> have
  taken the request, and let the request carry a non-null id \<open>R\<close>. If the generator
  finishes, it has yielded at least one frame and the \<open>id\<close> of the last one is \<open>R\<close>
  itself or a value that the comparison \<open>==\<close> takes for equal to \<open>R\<close>: when \<open>R\<close> is a
  string it is \<open>R\<close>, when \<open>R\<close> is an integer it is a number of the same value (the
  integer, a float, or a bool for 0 and 1). In particular, when a receive times out
  after frames that did not match, the generator yields those frames, then the frame
  with \<open>jsonrpc\<close> 2.0, the error of code -32603 with the message of the timeout, and the
  id \<open>R\<close>, and finishes.
\<close>

theorem final_frame_carries_request_id:
  fixes st p cid sname request_data sid_opt cmd as uuid sp now now2 send_now evs
  defines "gen \<equiv> handle_mcp_request st p cid sname request_data sid_opt cmd as uuid sp now now2 send_now evs"
  assumes resolved: "get_or_create_session st p cid sname sid_opt cmd as None None uuid sp now now2
                       = (Inr (sid, r), st1, p1)"
    and sent: "fst (send_message (st1 ! r) request_data send_now) = Inr ()"
    and rid: "py_get request_data ''id'' = Inr R"
    and nonnull: "R \<noteq> JNull"
  shows "(fst (snd gen) = Returned \<longrightarrow>
            fst gen \<noteq> [] \<and> has_id (last (fst gen)) R
          \<and> (\<forall>s. R = JStr s \<longrightarrow> py_getitem (last (fst gen)) ''id'' = Inr R)
          \<and> (\<forall>i. R = JInt i \<longrightarrow>
                (\<exists>v. py_getitem (last (fst gen)) ''id'' = Inr v \<and> num_of v = Some (of_int i))))
       \<and> (\<forall>pre t rest. evs = pre @ Receive Expired t # rest \<and> list_all (passes_by R) pre \<longrightarrow>
            fst gen = map frame_of pre @
              [JObj [(''jsonrpc'', JStr ''2.0''),
                     (''error'', JObj [(''code'', JInt (- 32603)),
                                      (''message'', JStr ''Timeout waiting for response from MCP server'')]),
                     (''id'', R)]]
          \<and> fst (snd gen) = Returned)"
proof -
  note core = final_frame_core[OF resolved sent rid nonnull, of evs, folded gen_def]
  have first: "fst (snd gen) = Returned \<longrightarrow>
            fst gen \<noteq> [] \<and> has_id (last (fst gen)) R
          \<and> (\<forall>s. R = JStr s \<longrightarrow> py_getitem (last (fst gen)) ''id'' = Inr R)
          \<and> (\<forall>i. R = JInt i \<longrightarrow>
                (\<exists>v. py_getitem (last (fst gen)) ''id'' = Inr v \<and> num_of v = Some (of_int i)))"
    using core has_id_string has_id_int by blast
  have second: "\<forall>pre t rest. evs = pre @ Receive Expired t # rest \<and> list_all (passes_by R) pre \<longrightarrow>
            fst gen = map frame_of pre @
              [JObj [(''jsonrpc'', JStr ''2.0''),
                     (''error'', JObj [(''code'', JInt (- 32603)),
                                      (''message'', JStr ''Timeout waiting for response from MCP server'')]),
                     (''id'', R)]]
          \<and> fst (snd gen) = Returned"
    using core unfolding timeout_frame_def error_frame_def by blast
  from first second show ?thesis by blast
qed

text \<open>
  Claim C2 as stated fails: the request has the id 1 and the server answers a frame
  whose id is \<open>true\<close>. \<open>True == 1\<close> holds, the loop stops there and the generator
  finishes on a frame whose id is not the one of the request.
\<close>

theorem final_frame_counterexample:
  "get_or_create_session example_store example_registry ''c1'' ''echo'' (Some ''mcp-1'')
       None None None None ''0b4e7a1c'' (Spawned 42) 10 11
     = (Inr (''mcp-1'', 0), example_touched, example_registry)
   \<and> fst (send_message (example_touched ! 0) (example_request ''tools/call'' (JInt 1)) 12) = Inr ()
   \<and> py_get (example_request ''tools/call'' (JInt 1)) ''id'' = Inr (JInt 1)
   \<and> fst (snd (example_call (JInt 1) [Receive (Got (Line (example_result (JBool True)))) 13]))
       = Returned
   \<and> py_getitem (last (fst (example_call (JInt 1)
          [Receive (Got (Line (example_result (JBool True)))) 13]))) ''id'' = Inr (JBool True)
   \<and> JBool True \<noteq> JInt 1"
proof -
  have h1: "get_or_create_session example_store example_registry ''c1'' ''echo'' (Some ''mcp-1'')
       None None None None ''0b4e7a1c'' (Spawned 42) 10 11
     = (Inr (''mcp-1'', 0), example_touched, example_registry)"
    by (simp add: get_or_create_session_def find_session_def example_registry_def example_touched_def
        example_store_def example_active_def example_session_def start_def MCPSession_init_def)
  have h2: "fst (send_message (example_touched ! 0) (example_request ''tools/call'' (JInt 1)) 12) = Inr ()"
    by (simp add: send_message_def example_touched_def example_store_def example_active_def
        example_session_def start_def MCPSession_init_def)
  have h3: "py_get (example_request ''tools/call'' (JInt 1)) ''id'' = Inr (JInt 1)"
    by (simp add: py_get_def example_request_def)
  have h4: "fst (snd (example_call (JInt 1) [Receive (Got (Line (example_result (JBool True)))) 13]))
       = Returned"
    by code_simp
  have h5: "py_getitem (last (fst (example_call (JInt 1)
          [Receive (Got (Line (example_result (JBool True)))) 13]))) ''id'' = Inr (JBool True)"
    by code_simp
  from h1 h2 h3 h4 h5 show ?thesis by simp
qed

text \<open>
  The theorem on the example session: a request with id 1 answered by a notification
  and then by the result with id 1; the same request when the receive after the
  notification times out; a request with the string id \<open>a1\<close> answered by its result.
\<close>

theorem final_frame_carries_request_id_witness:
  "get_or_create_session example_store example_registry ''c1'' ''echo'' (Some ''mcp-1'')
       None None None None ''0b4e7a1c'' (Spawned 42) 10 11
     = (Inr (''mcp-1'', 0), example_touched, example_registry)
   \<and> fst (send_message (example_touched ! 0) (example_request ''tools/call'' (JInt 1)) 12) = Inr ()
   \<and> py_get (example_request ''tools/call'' (JInt 1)) ''id'' = Inr (JInt 1)
   \<and> JInt 1 \<noteq> JNull
   \<and> fst (snd (example_call (JInt 1)
            [Receive (Got (Line example_notification)) 13,
             Receive (Got (Line (example_result (JInt 1)))) 14])) = Returned
   \<and> has_id (last (fst (example_call (JInt 1)
            [Receive (Got (Line example_notification)) 13,
             Receive (Got (Line (example_result (JInt 1)))) 14]))) (JInt 1)
   \<and> (\<exists>v. py_getitem (last (fst (example_call (JInt 1)
            [Receive (Got (Line example_notification)) 13,
             Receive (Got (Line (example_result (JInt 1)))) 14]))) ''id'' = Inr v
          \<and> num_of v = Some (of_int 1))
   \<and> list_all (passes_by (JInt 1)) [Receive (Got (Line example_notification)) 13]
   \<and> fst (example_call (JInt 1) ([Receive (Got (Line example_notification)) 13] @ Receive Expired 43 # []))
       = map frame_of [Receive (Got (Line example_notification)) 13] @
           [JObj [(''jsonrpc'', JStr ''2.0''),
                  (''error'', JObj [(''code'', JInt (- 32603)),
                                   (''message'', JStr ''Timeout waiting for response from MCP server'')]),
                  (''id'', JInt 1)]]
   \<and> fst (send_message (example_touched ! 0) (example_request ''tools/call'' (JStr ''a1'')) 12) = Inr ()
   \<and> py_get (example_request ''tools/call'' (JStr ''a1'')) ''id'' = Inr (JStr ''a1'')
   \<and> JStr ''a1'' \<noteq> JNull
   \<and> fst (snd (example_call (JStr ''a1'') [Receive (Got (Line (example_result (JStr ''a1'')))) 14]))
       = Returned
   \<and> py_getitem (last (fst (example_call (JStr ''a1'')
            [Receive (Got (Line (example_result (JStr ''a1'')))) 14]))) ''id'' = Inr (JStr ''a1'')"
proof -
  let ?req = "example_request ''tools/call'' (JInt 1)"
  let ?sreq = "example_request ''tools/call'' (JStr ''a1'')"
  let ?evs = "[Receive (Got (Line example_notification)) 13,
               Receive (Got (Line (example_result (JInt 1)))) 14]"
  let ?pre = "[Receive (Got (Line example_notification)) 13]"
  let ?sevs = "[Receive (Got (Line (example_result (JStr ''a1'')))) 14]"
  have h1: "get_or_create_session example_store example_registry ''c1'' ''echo'' (Some ''mcp-1'')
       None None None None ''0b4e7a1c'' (Spawned 42) 10 11
     = (Inr (''mcp-1'', 0), example_touched, example_registry)"
    by (simp add: get_or_create_session_def find_session_def example_registry_def example_touched_def
        example_store_def example_active_def example_session_def start_def MCPSession_init_def)
  have h2: "fst (send_message (example_touched ! 0) ?req 12) = Inr ()"
    by (simp add: send_message_def example_touched_def example_store_def example_active_def
        example_session_def start_def MCPSession_init_def)
  have h3: "py_get ?req ''id'' = Inr (JInt 1)"
    by (simp add: py_get_def example_request_def)
  have h4: "JInt 1 \<noteq> JNull" by simp
  have h5: "fst (snd (example_call (JInt 1) ?evs)) = Returned"
    by code_simp
  have h6: "list_all (passes_by (JInt 1)) ?pre"
    by (simp add: matches_request_def py_contains_def example_notification_def)
  have s2: "fst (send_message (example_touched ! 0) ?sreq 12) = Inr ()"
    by (simp add: send_message_def example_touched_def example_store_def example_active_def
        example_session_def start_def MCPSession_init_def)
  have s3: "py_get ?sreq ''id'' = Inr (JStr ''a1'')"
    by (simp add: py_get_def example_request_def)
  have s4: "JStr ''a1'' \<noteq> JNull" by simp
  have s5: "fst (snd (example_call (JStr ''a1'') ?sevs)) = Returned"
    by code_simp
  note t1 = final_frame_carries_request_id [OF h1 h2 h3 h4, of ?evs, folded example_call_def]
  note t2 = final_frame_carries_request_id [OF h1 h2 h3 h4, of "?pre @ Receive Expired 43 # []",
      folded example_call_def]
  note t3 = final_frame_carries_request_id [OF h1 s2 s3 s4, of ?sevs, folded example_call_def]
  from t1 h5 have c1: "has_id (last (fst (example_call (JInt 1) ?evs))) (JInt 1)
      \<and> (\<exists>v. py_getitem (last (fst (example_call (JInt 1) ?evs))) ''id'' = Inr v
            \<and> num_of v = Some (of_int 1))"
    by blast
  from t2 h6 have c2: "fst (example_call (JInt 1) (?pre @ Receive Expired 43 # []))
       = map frame_of ?pre @
           [JObj [(''jsonrpc'', JStr ''2.0''),
                  (''error'', JObj [(''code'', JInt (- 32603)),
                                   (''message'', JStr ''Timeout waiting for response from MCP server'')]),
                  (''id'', JInt 1)]]"
    by blast
  from t3 s5 have c3: "py_getitem (last (fst (example_call (JStr ''a1'') ?sevs))) ''id''
      = Inr (JStr ''a1'')"
    by blast
  from h1 h2 h3 h4 h5 h6 s2 s3 s4 s5 c1 c2 c3 show ?thesis by blast
qed

section \<open>The proxy route on a batch\<close>

lemma on_exception_batch:
  "on_exception (JArr items) frames e = (frames, Raised (AttributeError (quoted ''list'' @ '' object has no attribute '' @ quoted ''get'')))"
  by (simp add: on_exception_def py_get_def)

lemma handle_body_batch:
  "\<exists>e st2. handle_body st r (JArr items) now evs = ([], Raised e, st2)"
  by (cases "send_message (st ! r) (JArr items) now")
     (auto simp: handle_body_def py_get_def split: sum.splits)

lemma handle_batch:
  "fst (handle_mcp_request st p cid sname (JArr items) sid_opt cmd as uuid sp now now2 send_now evs) = []
   \<and> fst (snd (handle_mcp_request st p cid sname (JArr items) sid_opt cmd as uuid sp now now2 send_now evs))
       = Raised (AttributeError (quoted ''list'' @ '' object has no attribute '' @ quoted ''get''))"
proof (cases "get_or_create_session st p cid sname sid_opt cmd as None None uuid sp now now2")
  case (fields res st1 p1)
  show ?thesis
  proof (cases res)
    case (Inl e)
    with fields show ?thesis by (simp add: handle_mcp_request_def on_exception_batch)
  next
    case (Inr x)
    obtain sid r where x: "x = (sid, r)" by (cases x)
    from handle_body_batch[of st1 r items send_now evs] obtain e st2 where
      "handle_body st1 r (JArr items) send_now evs = ([], Raised e, st2)" by blast
    with fields Inr x show ?thesis by (simp add: handle_mcp_request_def on_exception_batch)
  qed
qed

lemma batch_never_answered:
  assumes "map_of (containers m) cid = Some c"
    and "validate_body (JArr items) = None"
    and "\<not> sublist ''text/event-stream'' (case accept of None \<Rightarrow> ''application/json'' | Some a \<Rightarrow> a)"
  shows "fst (mcp_proxy_endpoint m st p cid sname (Body (JArr items)) accept mcp_session_id used_now
                uuid sp now now2 send_now evs)
           = Unhandled (AttributeError (quoted ''list'' @ '' object has no attribute '' @ quoted ''get''))"
proof -
  obtain frames res st1 p1 where h: "handle_mcp_request st p cid sname (JArr items) mcp_session_id
        None None uuid sp now now2 send_now evs = (frames, res, st1, p1)"
    by (cases "handle_mcp_request st p cid sname (JArr items) mcp_session_id
        None None uuid sp now now2 send_now evs")
  with handle_batch[of st p cid sname items mcp_session_id None None uuid sp now now2 send_now evs]
  have "res = Raised (AttributeError (quoted ''list'' @ '' object has no attribute '' @ quoted ''get''))" by simp
  with assms h show ?thesis
    by (simp add: mcp_proxy_endpoint_def get_container_def Let_def)
qed

text \<open>
  Claim C1 fails on the code. The body is a batch of two valid requests with the ids
  100 and 101, the container exists, the client accepts \<open>application/json\<close> and the
  server would answer both requests. The generator reads \<open>request_data.get\<close> on the
  list, the handler of that exception reads it again, and the \<open>AttributeError\<close> leaves
  the route: no array of frames is returned. By \<open>batch_never_answered\<close> this is so for
  every batch that passes the validation.
\<close>

theorem batch_request_raises:
  "fst (mcp_proxy_endpoint example_manager [] example_proxy ''c1'' ''echo''
         (Body (JArr [example_request ''initialize'' (JInt 100),
                      example_request ''tools/list'' (JInt 101)]))
         (Some ''application/json'') None 500 ''0b4e7a1c'' (Spawned 41) 501 502 503
         [Receive (Got (Line (example_result (JInt 100)))) 504,
          Receive (Got (Line (example_result (JInt 101)))) 505])
     = Unhandled (AttributeError (quoted ''list'' @ '' object has no attribute '' @ quoted ''get''))
   \<and> validate_body (JArr [example_request ''initialize'' (JInt 100),
                           example_request ''tools/list'' (JInt 101)]) = None"
proof -
  have v: "validate_body (JArr [example_request ''initialize'' (JInt 100),
                           example_request ''tools/list'' (JInt 101)]) = None"
    by (simp add: validate_body_def JSONRPC20Request_def example_request_def field_ok_def)
  have c: "map_of (containers example_manager) ''c1'' = Some 7" by (simp add: example_manager_def)
  have a: "\<not> sublist ''text/event-stream'' (case Some ''application/json'' of None \<Rightarrow> ''application/json'' | Some a \<Rightarrow> a)"
    by code_simp
  from batch_never_answered[OF c v a] v show ?thesis by simp
qed

end
